theory Spec2Isabelle
  imports Complex_Main
begin

section \<open>Values of the Python program\<close>

text \<open>
  The exceptions that the modelled code paths of \<^verbatim>\<open>textbox/trainer/trainer.py\<close> can raise.
  \<^verbatim>\<open>ValueError\<close> is what \<^verbatim>\<open>_check_nan\<close> raises (\<^verbatim>\<open>ValueError('Training loss is nan')\<close>).
\<close>

datatype error =
    ValueError
  | TypeError
  | AttributeError
  | KeyError
  | StopIteration
  | FileNotFoundError
  | RuntimeError
  | ZeroDivisionError

text \<open>
  A Python/torch float is one of: a finite number, plus or minus infinity, or NaN.
  The special values follow IEEE-754. \<open>fadd\<close> is \<^verbatim>\<open>+\<close> on the Python floats of the running
  totals (what \<^verbatim>\<open>.item()\<close> returns), with the sum of two finite numbers taken exact. The
  \<^verbatim>\<open>+\<close> of torch on the loss tensors themselves, whose result \<^verbatim>\<open>_check_nan\<close> looks at, is
  not \<open>fadd\<close>: it rounds and overflows in the data type of the tensors, and is a
  collaborator of the trainers (\<open>tensor_add\<close> below).
\<close>

datatype pyfloat = Fin real | PInf | NInf | NaN

fun isnan :: "pyfloat \<Rightarrow> bool" where
  "isnan NaN = True"
| "isnan _ = False"


fun fadd :: "pyfloat \<Rightarrow> pyfloat \<Rightarrow> pyfloat" where
  "fadd (Fin a) (Fin b) = Fin (a + b)"
| "fadd NaN _ = NaN"
| "fadd _ NaN = NaN"
| "fadd PInf NInf = NaN"
| "fadd NInf PInf = NaN"
| "fadd PInf _ = PInf"
| "fadd _ PInf = PInf"
| "fadd NInf _ = NInf"
| "fadd _ NInf = NInf"

text \<open>\<^verbatim>\<open>a < b\<close> and \<^verbatim>\<open>a > b\<close> on floats: every comparison with NaN is false.\<close>

fun flt :: "pyfloat \<Rightarrow> pyfloat \<Rightarrow> bool" where
  "flt NaN _ = False"
| "flt _ NaN = False"
| "flt (Fin a) (Fin b) = (a < b)"
| "flt NInf NInf = False"
| "flt NInf _ = True"
| "flt _ NInf = False"
| "flt PInf _ = False"
| "flt _ PInf = True"

definition fgt :: "pyfloat \<Rightarrow> pyfloat \<Rightarrow> bool" where
  "fgt a b = flt b a"

text \<open>
  \<^verbatim>\<open>x / n\<close> for a float \<open>x\<close> and a positive count \<open>n\<close> (a \<^verbatim>\<open>len(...)\<close>, or one of the
  float counters \<^verbatim>\<open>g_num\<close>, \<^verbatim>\<open>d_num\<close>). Division by zero is an exception in Python and is
  dealt with where the division is made (\<open>truediv\<close> below).
\<close>

fun fdiv :: "pyfloat \<Rightarrow> nat \<Rightarrow> pyfloat" where
  "fdiv (Fin a) n = Fin (a / real n)"
| "fdiv x n = x"

text \<open>\<^verbatim>\<open>np.exp\<close>: exact on finite values, IEEE-754 on the special ones.\<close>

fun np_exp :: "pyfloat \<Rightarrow> pyfloat" where
  "np_exp (Fin a) = Fin (exp a)"
| "np_exp PInf = PInf"
| "np_exp NInf = Fin 0"
| "np_exp NaN = NaN"

text \<open>
  What a model's loss method returns (\<^verbatim>\<open>losses\<close>): one scalar tensor, or a tuple of scalar
  tensors (tested by \<^verbatim>\<open>isinstance(losses, tuple)\<close>).
\<close>

datatype losses = Scalar pyfloat | Tuple "pyfloat list"

section \<open>Strings\<close>

text \<open>
  A character of a string is a Unicode code point below 256 (the type \<open>char\<close> has
  exactly these), so a string is a Python \<^verbatim>\<open>str\<close> over Latin-1. \<^verbatim>\<open>str.lower()\<close> maps the
  capitals of that range to their small letters, 32 code points further on: \<open>A\<close> to
  \<open>Z\<close> (65 to 90), and the accented capitals 192 to 222 without the multiplication sign
  215. Every other code point below 256 is kept.
\<close>

definition lower_char :: "char \<Rightarrow> char" where
  "lower_char c =
     (let n = (of_char c :: nat)
      in if (65 \<le> n \<and> n \<le> 90) \<or> (192 \<le> n \<and> n \<le> 222 \<and> n \<noteq> 215)
         then char_of (n + 32) else c)"

definition lower :: "string \<Rightarrow> string" where
  "lower s = map lower_char s"

text \<open>\<^verbatim>\<open>os.path.join(a, b)\<close> on POSIX, for two components.\<close>

definition path_join :: "string \<Rightarrow> string \<Rightarrow> string" where
  "path_join a b =
     (if b \<noteq> [] \<and> hd b = CHR ''/'' then b
      else if a = [] \<or> last a = CHR ''/'' then a @ b
      else a @ ''/'' @ b)"

section \<open>Early-stopping policy\<close>

text \<open>
  Modelled from the spec: \<^verbatim>\<open>early_stopping\<close> is imported by \<^verbatim>\<open>trainer.py\<close> from
  \<^verbatim>\<open>textbox.utils\<close>, but \<^verbatim>\<open>textbox/utils/utils.py\<close> as given does not define it. The
  definition follows section 4.4 of the specification: the improvement test in the
  direction chosen by \<open>bigger\<close>, the reset or increment of the patience counter, and
  the stop decision, which a non-positive \<open>max_step\<close> disables. The result is
  \<open>(updated_best, updated_cur_step, should_stop, improved)\<close>, in the order in which
  \<^verbatim>\<open>Trainer.fit\<close> unpacks it.
\<close>

definition early_stopping ::
  "pyfloat \<Rightarrow> pyfloat \<Rightarrow> int \<Rightarrow> int \<Rightarrow> bool \<Rightarrow> pyfloat \<times> int \<times> bool \<times> bool" where
  "early_stopping new_score best cur_step max_step bigger =
     (let improved = (if bigger then fgt new_score best else flt new_score best);
          updated_best = (if improved then new_score else best);
          updated_cur_step = (if improved then 0 else cur_step + 1);
          should_stop = (updated_cur_step \<ge> max_step \<and> max_step > 0)
      in (updated_best, updated_cur_step, should_stop, improved))"

section \<open>Optimizer factory\<close>

datatype opt_kind = Adam | SGD | Adagrad | RMSprop

text \<open>
  An optimizer object: its class, the learning rate it was built with, and its internal
  state (type \<open>'o\<close>, opaque to the trainer; this is what \<^verbatim>\<open>optimizer.state_dict()\<close>
  returns together with the hyper-parameters).
\<close>

record 'o optimizer =
  opt_kind :: opt_kind
  opt_lr :: real
  opt_state :: 'o

text \<open>The messages the trainers send to their logger, without the formatting of numbers.\<close>

datatype message =
    UnrecognizedOptimizer
  | ArchitectureDiffers
  | CheckpointLoaded int
  | TrainLossOutput int
  | SavingCurrent string
  | ValidScoreOutput int
  | ValidResultOutput
  | SavingCurrentBest string
  | FinishedTraining int
  | StartGeneratorPretraining
  | EndGeneratorPretraining
  | StartDiscriminatorPretraining
  | EndDiscriminatorPretraining
  | StartAdversarialTraining
  | EndAdversarialPretraining

datatype log_entry = Info message | Warning message

text \<open>
  The constructors of \<^verbatim>\<open>torch.optim\<close> are collaborators of the trainers: \<open>new k lr st\<close>
  is the call \<^verbatim>\<open>optim.K(params, lr=lr)\<close> for the class \<open>k\<close>, where \<open>st\<close> is the fresh state
  of an optimizer over \<^verbatim>\<open>params\<close>. It returns the optimizer, or raises.
\<close>

type_synonym 'o optim_new = "opt_kind \<Rightarrow> real \<Rightarrow> 'o \<Rightarrow> error + 'o optimizer"

text \<open>
  \<^verbatim>\<open>Trainer._build_optimizer\<close>: \<open>learner\<close> is \<^verbatim>\<open>self.learner\<close>, \<open>lr\<close> is
  \<^verbatim>\<open>self.learning_rate\<close>, \<open>st\<close> is the fresh state of an optimizer over
  \<^verbatim>\<open>self.model.parameters()\<close>. The result is what the constructor returned or raised, and
  what was logged before it was called.
\<close>

definition build_optimizer ::
  "'o optim_new \<Rightarrow> string \<Rightarrow> real \<Rightarrow> 'o \<Rightarrow> (error + 'o optimizer) \<times> log_entry list" where
  "build_optimizer new learner lr st =
     (if lower learner = ''adam'' then (new Adam lr st, [])
      else if lower learner = ''sgd'' then (new SGD lr st, [])
      else if lower learner = ''adagrad'' then (new Adagrad lr st, [])
      else if lower learner = ''rmsprop'' then (new RMSprop lr st, [])
      else (new Adam lr st, [Warning UnrecognizedOptimizer]))"

text \<open>
  \<^verbatim>\<open>GANTrainer._build_module_optimizer\<close> returns one optimizer, or the pair
  \<^verbatim>\<open>(manager_opt, worker_opt)\<close> when the module is a \<^verbatim>\<open>LeakGANGenerator\<close>.
\<close>

datatype 'o module_optimizer =
    Single "'o optimizer"
  | ManagerWorker "'o optimizer" "'o optimizer"

text \<open>
  \<open>name\<close> is \<^verbatim>\<open>module._get_name()\<close>; \<open>st\<close> is the fresh optimizer state over
  \<^verbatim>\<open>module.parameters()\<close>, \<open>mst\<close> and \<open>wst\<close> those over the two parts of
  \<^verbatim>\<open>module.split_params()\<close>. For a split module the manager's optimizer is constructed
  first, then the worker's.
\<close>

definition build_module_optimizer ::
  "'o optim_new \<Rightarrow> string \<Rightarrow> string \<Rightarrow> real \<Rightarrow> 'o \<Rightarrow> 'o \<Rightarrow> 'o
     \<Rightarrow> (error + 'o module_optimizer) \<times> log_entry list" where
  "build_module_optimizer new name learner lr st mst wst =
     (let multi_flag = (name = ''LeakGANGenerator'');
          mk = (\<lambda>k. if multi_flag then
                       (case new k lr mst of
                          Inl err \<Rightarrow> Inl err
                        | Inr manager_opt \<Rightarrow>
                            (case new k lr wst of
                               Inl err \<Rightarrow> Inl err
                             | Inr worker_opt \<Rightarrow> Inr (ManagerWorker manager_opt worker_opt)))
                     else
                       (case new k lr st of
                          Inl err \<Rightarrow> Inl err
                        | Inr opt \<Rightarrow> Inr (Single opt)))
      in if lower learner = ''adam'' then (mk Adam, [])
         else if lower learner = ''sgd'' then (mk SGD, [])
         else if lower learner = ''adagrad'' then (mk Adagrad, [])
         else if lower learner = ''rmsprop'' then (mk RMSprop, [])
         else (mk Adam, [Warning UnrecognizedOptimizer]))"

text \<open>
  The reading of the specification's section 4.1, to compare the code with: the table of
  the recognised learner kinds, looked up with the name in small letters.
\<close>

definition recognized_kind :: "string \<Rightarrow> opt_kind option" where
  "recognized_kind learner =
     map_of [(''adam'', Adam), (''sgd'', SGD), (''adagrad'', Adagrad), (''rmsprop'', RMSprop)]
       (lower learner)"


section \<open>Configuration, checkpoints and the effects of a trainer\<close>

text \<open>
  The keys of \<^verbatim>\<open>config\<close> that the modelled code reads, under their names in the source
  (\<^verbatim>\<open>adversarail_*\<close> is the source's spelling). Keys that only feed collaborators
  (\<^verbatim>\<open>valid_metric\<close>, \<^verbatim>\<open>eval_batch_size\<close>, \<^verbatim>\<open>device\<close>, \<^verbatim>\<open>ITEM_ID_FIELD\<close>, \<^verbatim>\<open>grad_clip\<close>,
  \<^verbatim>\<open>d_sample_num\<close>, \<^verbatim>\<open>max_seq_length\<close>) are left out.
\<close>

record config =
  cfg_model :: string
  cfg_learner :: string
  cfg_learning_rate :: real
  cfg_epochs :: int
  cfg_eval_step :: int
  cfg_stopping_step :: int
  cfg_checkpoint_dir :: string
  cfg_g_pretraining_epochs :: int
  cfg_d_pretraining_epochs :: int
  cfg_d_sample_training_epochs :: int
  cfg_adversarail_training_epochs :: int
  cfg_adversarail_d_epochs :: int

text \<open>
  The dictionary that \<^verbatim>\<open>_save_checkpoint\<close> hands to \<^verbatim>\<open>torch.save\<close>. \<open>'p\<close> is the type of
  \<^verbatim>\<open>model.state_dict()\<close>. The key \<^verbatim>\<open>'optimizer'\<close> holds \<^verbatim>\<open>optimizer.state_dict()\<close>, that is
  the hyper-parameters and the state of the optimizer; \<open>None\<close> stands for a dictionary
  without that key.
\<close>

record ('p, 'o) checkpoint =
  ck_config :: config
  ck_epoch :: int
  ck_cur_step :: int
  ck_best_valid_score :: pyfloat
  ck_state_dict :: 'p
  ck_optimizer :: "(real \<times> 'o) option"

text \<open>
  What a trainer does to the world outside its own fields, in the order in which it does
  it: switching a module to training or evaluation mode, calls of a loss method of the
  model (\<open>'c\<close> describes the call: its arguments and what it returned), optimizer steps
  (\<^verbatim>\<open>loss.backward()\<close> followed by \<^verbatim>\<open>optimizer.step()\<close>), files written by \<^verbatim>\<open>torch.save\<close>, and
  logger calls. Gradient buffers are not modelled, so \<^verbatim>\<open>zero_grad()\<close> leaves no event.
\<close>

datatype ('p, 'o, 'c) event =
    ModelTrain
  | ModelEval
  | CalculateLoss 'c
  | OptimizerStep
  | TorchSave string "('p, 'o) checkpoint"
  | Log log_entry

text \<open>\<^verbatim>\<open>torch.load(path)\<close>: the checkpoint that the last \<^verbatim>\<open>torch.save\<close> to \<open>path\<close> wrote.\<close>

fun torch_load :: "('p, 'o, 'c) event list \<Rightarrow> string \<Rightarrow> ('p, 'o) checkpoint option" where
  "torch_load [] path = None"
| "torch_load (ev # evs) path =
     (case torch_load evs path of
        Some ck \<Rightarrow> Some ck
      | None \<Rightarrow> (case ev of
                   TorchSave f ck \<Rightarrow> if f = path then Some ck else None
                 | _ \<Rightarrow> None))"

text \<open>The files written, oldest first.\<close>

fun saves :: "('p, 'o, 'c) event list \<Rightarrow> (string \<times> ('p, 'o) checkpoint) list" where
  "saves [] = []"
| "saves (TorchSave f ck # evs) = (f, ck) # saves evs"
| "saves (_ # evs) = saves evs"

text \<open>
  The collaborators of the base trainer, which the repository takes from the model and
  from torch:
  \<^item> \<open>calculate_loss training params batch epoch_idx\<close> is \<^verbatim>\<open>model.calculate_loss\<close>, with
    the mode of the model (\<^verbatim>\<open>model.train()\<close> or \<^verbatim>\<open>model.eval()\<close>) as first argument;
  \<^item> \<open>optimizer_step params opt batch epoch_idx\<close> is the effect of \<^verbatim>\<open>loss.backward()\<close>
    and \<^verbatim>\<open>optimizer.step()\<close> for the loss of that batch;
  \<^item> \<open>state_dict_fits params sd\<close> says that \<^verbatim>\<open>model.load_state_dict(sd)\<close> accepts \<open>sd\<close>
    (same keys and shapes), and \<open>optimizer_fits\<close> the same for the optimizer;
  \<^item> \<open>tensor_add a b\<close> is the value of \<^verbatim>\<open>a + b\<close> for two loss tensors of the model, as
    torch computes it in their data type.
\<close>

record ('p, 'o, 'b) model_ops =
  calculate_loss :: "bool \<Rightarrow> 'p \<Rightarrow> 'b \<Rightarrow> int option \<Rightarrow> losses"
  optimizer_step :: "'p \<Rightarrow> 'o optimizer \<Rightarrow> 'b \<Rightarrow> int \<Rightarrow> 'p \<times> 'o optimizer"
  state_dict_fits :: "'p \<Rightarrow> 'p \<Rightarrow> bool"
  optimizer_fits :: "'o optimizer \<Rightarrow> real \<times> 'o \<Rightarrow> bool"
  tensor_add :: "pyfloat \<Rightarrow> pyfloat \<Rightarrow> pyfloat"

section \<open>The base trainer\<close>

text \<open>
  The fields of a \<^verbatim>\<open>Trainer\<close> that the modelled methods read or write, and \<open>trace\<close>,
  the effects so far (of this trainer and of whatever ran before it).
\<close>

record ('p, 'o, 'b) trainer =
  config :: config
  learner :: string
  learning_rate :: real
  epochs :: int
  eval_step :: int
  stopping_step :: int
  checkpoint_dir :: string
  saved_model_file :: string
  start_epoch :: int
  cur_step :: int
  best_valid_score :: pyfloat
  best_valid_result :: "pyfloat option"
  train_loss_ppl_dict :: "int \<rightharpoonup> pyfloat \<times> pyfloat"
  optimizer :: "'o optimizer"
  model :: 'p
  trace :: "('p, 'o, 'b \<times> losses) event list"

definition emit :: "('p, 'o, 'b \<times> losses) event \<Rightarrow> ('p, 'o, 'b) trainer \<Rightarrow> ('p, 'o, 'b) trainer" where
  "emit ev t = t\<lparr>trace := trace t @ [ev]\<rparr>"

text \<open>\<^verbatim>\<open>if verbose: self.logger.info(...)\<close>\<close>

definition log_info :: "bool \<Rightarrow> message \<Rightarrow> ('p, 'o, 'b) trainer \<Rightarrow> ('p, 'o, 'b) trainer" where
  "log_info verbose msg t = (if verbose then emit (Log (Info msg)) t else t)"

text \<open>
  \<^verbatim>\<open>Trainer.__init__\<close>. \<open>now\<close> is the result of \<^verbatim>\<open>get_local_time()\<close>, \<open>new\<close> the
  constructors of \<^verbatim>\<open>torch.optim\<close>, \<open>ost\<close> the fresh optimizer state, \<open>tr\<close> the effects
  before the construction. When the constructor of the optimizer raises there is no
  trainer. The creation of the checkpoint directory by \<^verbatim>\<open>ensure_dir\<close> is not part of the
  state.
\<close>

definition trainer_init ::
  "config \<Rightarrow> 'p \<Rightarrow> 'o optim_new \<Rightarrow> 'o \<Rightarrow> string \<Rightarrow> ('p, 'o, 'b \<times> losses) event list
     \<Rightarrow> error + ('p, 'o, 'b) trainer" where
  "trainer_init cfg m new ost now tr =
     (case build_optimizer new (cfg_learner cfg) (cfg_learning_rate cfg) ost of
        (Inl err, logs) \<Rightarrow> Inl err
      | (Inr opt, logs) \<Rightarrow>
          Inr \<lparr>config = cfg,
               learner = cfg_learner cfg,
               learning_rate = cfg_learning_rate cfg,
               epochs = cfg_epochs cfg,
               eval_step = min (cfg_eval_step cfg) (cfg_epochs cfg),
               stopping_step = cfg_stopping_step cfg,
               checkpoint_dir = cfg_checkpoint_dir cfg,
               saved_model_file =
                 path_join (cfg_checkpoint_dir cfg) (cfg_model cfg @ ''-'' @ now @ ''.pth''),
               start_epoch = 0,
               cur_step = 0,
               best_valid_score = Fin 100000000,
               best_valid_result = None,
               train_loss_ppl_dict = Map.empty,
               optimizer = opt,
               model = m,
               trace = tr @ map Log logs\<rparr>)"

text \<open>\<^verbatim>\<open>Trainer._save_checkpoint\<close>\<close>

definition save_checkpoint :: "('p, 'o, 'b) trainer \<Rightarrow> int \<Rightarrow> ('p, 'o, 'b) trainer" where
  "save_checkpoint t epoch =
     (let state = \<lparr>ck_config = config t,
                   ck_epoch = epoch,
                   ck_cur_step = cur_step t,
                   ck_best_valid_score = best_valid_score t,
                   ck_state_dict = model t,
                   ck_optimizer = Some (opt_lr (optimizer t), opt_state (optimizer t))\<rparr>
      in emit (TorchSave (saved_model_file t) state) t)"

text \<open>
  \<^verbatim>\<open>Trainer.resume_checkpoint\<close>. The three counters are assigned before anything can
  fail after the load, so they stay assigned when a later line raises.
\<close>

definition resume_checkpoint ::
  "('p, 'o, 'b) model_ops \<Rightarrow> ('p, 'o, 'b) trainer \<Rightarrow> string
     \<Rightarrow> ('p, 'o, 'b) trainer \<times> (error + unit)" where
  "resume_checkpoint ops t resume_file =
     (case torch_load (trace t) resume_file of
        None \<Rightarrow> (t, Inl FileNotFoundError)
      | Some ck \<Rightarrow>
          (let t1 = t\<lparr>start_epoch := ck_epoch ck + 1,
                      cur_step := ck_cur_step ck,
                      best_valid_score := ck_best_valid_score ck\<rparr>;
               t2 = (if lower (cfg_model (ck_config ck)) \<noteq> lower (cfg_model (config t1))
                     then emit (Log (Warning ArchitectureDiffers)) t1 else t1)
           in if \<not> state_dict_fits ops (model t2) (ck_state_dict ck) then (t2, Inl RuntimeError)
              else
                (let t3 = t2\<lparr>model := ck_state_dict ck\<rparr>
                 in case ck_optimizer ck of
                      None \<Rightarrow> (t3, Inl KeyError)
                    | Some od \<Rightarrow>
                        if \<not> optimizer_fits ops (optimizer t3) od then (t3, Inl ValueError)
                        else
                          (let t4 = t3\<lparr>optimizer :=
                                         (optimizer t3)\<lparr>opt_lr := fst od, opt_state := snd od\<rparr>\<rparr>
                           in (emit (Log (Info (CheckpointLoaded (start_epoch t4)))) t4,
                               Inr ())))))"

subsection \<open>Loss aggregation\<close>

text \<open>
  \<^verbatim>\<open>sum(losses)\<close> over a tuple of tensors: \<^verbatim>\<open>0 + l1 + l2 + ...\<close>, where \<^verbatim>\<open>0 + l1\<close> is
  \<^verbatim>\<open>l1\<close> and every further \<^verbatim>\<open>+\<close> is the addition \<open>add\<close> of torch. For the empty tuple
  the result is the Python integer 0, which is not a tensor: \<open>None\<close> here.
\<close>

fun py_sum :: "(pyfloat \<Rightarrow> pyfloat \<Rightarrow> pyfloat) \<Rightarrow> pyfloat list \<Rightarrow> pyfloat option" where
  "py_sum add [] = None"
| "py_sum add (x # xs) = Some (foldl add x xs)"

text \<open>The scalar \<^verbatim>\<open>loss\<close> of a step, which \<^verbatim>\<open>_check_nan\<close> looks at and \<^verbatim>\<open>backward\<close> starts from.\<close>

fun combined_loss :: "(pyfloat \<Rightarrow> pyfloat \<Rightarrow> pyfloat) \<Rightarrow> losses \<Rightarrow> pyfloat option" where
  "combined_loss add (Scalar x) = Some x"
| "combined_loss add (Tuple xs) = py_sum add xs"

text \<open>
  The update of \<^verbatim>\<open>total_loss\<close> that \<^verbatim>\<open>_train_epoch\<close>, \<^verbatim>\<open>_valid_epoch\<close> and both
  \<^verbatim>\<open>_optimize_step\<close> share. \<^verbatim>\<open>tuple(map(sum, zip(total_loss, loss_tuple)))\<close> adds position by
  position and stops at the shorter tuple; \<^verbatim>\<open>zip\<close> of a float, and \<^verbatim>\<open>+\<close> of a tuple and a
  float, raise \<^verbatim>\<open>TypeError\<close>.
\<close>

fun accumulate :: "losses option \<Rightarrow> losses \<Rightarrow> error + losses" where
  "accumulate None (Tuple xs) = Inr (Tuple xs)"
| "accumulate (Some (Tuple ts)) (Tuple xs) = Inr (Tuple (map (\<lambda>(a, b). fadd a b) (zip ts xs)))"
| "accumulate (Some (Scalar s)) (Tuple xs) = Inl TypeError"
| "accumulate None (Scalar x) = Inr (Scalar x)"
| "accumulate (Some (Scalar s)) (Scalar x) = Inr (Scalar (fadd s x))"
| "accumulate (Some (Tuple ts)) (Scalar x) = Inl TypeError"

text \<open>\<^verbatim>\<open>Trainer._check_nan\<close>; \<^verbatim>\<open>torch.isnan\<close> of a Python integer raises \<^verbatim>\<open>TypeError\<close>.\<close>

fun check_nan :: "pyfloat option \<Rightarrow> error + unit" where
  "check_nan None = Inl TypeError"
| "check_nan (Some x) = (if isnan x then Inl ValueError else Inr ())"

text \<open>
  \<^verbatim>\<open>total_loss / n\<close> at the end of an epoch: \<^verbatim>\<open>/\<close> is defined for a float total only; for
  \<^verbatim>\<open>None\<close> (no step was made) and for a tuple it raises \<^verbatim>\<open>TypeError\<close>, and a float divided
  by zero raises \<^verbatim>\<open>ZeroDivisionError\<close>.
\<close>

fun truediv :: "losses option \<Rightarrow> nat \<Rightarrow> error + pyfloat" where
  "truediv (Some (Scalar x)) n = (if n = 0 then Inl ZeroDivisionError else Inr (fdiv x n))"
| "truediv (Some (Tuple xs)) n = Inl TypeError"
| "truediv None n = Inl TypeError"

text \<open>\<^verbatim>\<open>train_loss = total_loss / len(train_data)\<close>, then \<^verbatim>\<open>ppl = np.exp(train_loss)\<close>.\<close>

definition epoch_mean :: "losses option \<Rightarrow> nat \<Rightarrow> error + pyfloat \<times> pyfloat" where
  "epoch_mean total_loss n =
     (case truediv total_loss n of
        Inl err \<Rightarrow> Inl err
      | Inr loss \<Rightarrow> Inr (loss, np_exp loss))"

subsection \<open>Epochs\<close>

text \<open>The \<^verbatim>\<open>for\<close> loop of \<^verbatim>\<open>Trainer._train_epoch\<close>, with \<^verbatim>\<open>total_loss\<close> as accumulator.\<close>

fun train_loop ::
  "('p, 'o, 'b) model_ops \<Rightarrow> int \<Rightarrow> ('p, 'o, 'b) trainer \<Rightarrow> losses option \<Rightarrow> 'b list
     \<Rightarrow> ('p, 'o, 'b) trainer \<times> (error + losses option)" where
  "train_loop ops epoch_idx t total_loss [] = (t, Inr total_loss)"
| "train_loop ops epoch_idx t total_loss (data # rest) =
     (let losses = calculate_loss ops True (model t) data (Some epoch_idx);
          t1 = emit (CalculateLoss (data, losses)) t
      in case accumulate total_loss losses of
           Inl err \<Rightarrow> (t1, Inl err)
         | Inr total_loss' \<Rightarrow>
             (case check_nan (combined_loss (tensor_add ops) losses) of
                Inl err \<Rightarrow> (t1, Inl err)
              | Inr _ \<Rightarrow>
                  (case optimizer_step ops (model t1) (optimizer t1) data epoch_idx of
                     (p, opt) \<Rightarrow>
                       train_loop ops epoch_idx
                         (emit OptimizerStep (t1\<lparr>model := p, optimizer := opt\<rparr>))
                         (Some total_loss') rest)))"

text \<open>\<^verbatim>\<open>Trainer._train_epoch\<close>; the result is \<^verbatim>\<open>(train_loss, ppl)\<close>.\<close>

definition train_epoch ::
  "('p, 'o, 'b) model_ops \<Rightarrow> ('p, 'o, 'b) trainer \<Rightarrow> 'b list \<Rightarrow> int
     \<Rightarrow> ('p, 'o, 'b) trainer \<times> (error + pyfloat \<times> pyfloat)" where
  "train_epoch ops t train_data epoch_idx =
     (case train_loop ops epoch_idx (emit ModelTrain t) None train_data of
        (t1, Inl err) \<Rightarrow> (t1, Inl err)
      | (t1, Inr total_loss) \<Rightarrow> (t1, epoch_mean total_loss (length train_data)))"

text \<open>The \<^verbatim>\<open>for\<close> loop of \<^verbatim>\<open>Trainer._valid_epoch\<close>: no backward pass, no optimizer step.\<close>

fun valid_loop ::
  "('p, 'o, 'b) model_ops \<Rightarrow> ('p, 'o, 'b) trainer \<Rightarrow> losses option \<Rightarrow> 'b list
     \<Rightarrow> ('p, 'o, 'b) trainer \<times> (error + losses option)" where
  "valid_loop ops t total_loss [] = (t, Inr total_loss)"
| "valid_loop ops t total_loss (data # rest) =
     (let losses = calculate_loss ops False (model t) data None;
          t1 = emit (CalculateLoss (data, losses)) t
      in case accumulate total_loss losses of
           Inl err \<Rightarrow> (t1, Inl err)
         | Inr total_loss' \<Rightarrow>
             (case check_nan (combined_loss (tensor_add ops) losses) of
                Inl err \<Rightarrow> (t1, Inl err)
              | Inr _ \<Rightarrow> valid_loop ops t1 (Some total_loss') rest))"

text \<open>\<^verbatim>\<open>Trainer._valid_epoch\<close>; the result is \<^verbatim>\<open>(valid_loss, ppl)\<close>.\<close>

definition valid_epoch ::
  "('p, 'o, 'b) model_ops \<Rightarrow> ('p, 'o, 'b) trainer \<Rightarrow> 'b list
     \<Rightarrow> ('p, 'o, 'b) trainer \<times> (error + pyfloat \<times> pyfloat)" where
  "valid_epoch ops t valid_data =
     (case valid_loop ops (emit ModelEval t) None valid_data of
        (t1, Inl err) \<Rightarrow> (t1, Inl err)
      | (t1, Inr total_loss) \<Rightarrow> (t1, epoch_mean total_loss (length valid_data)))"

subsection \<open>fit\<close>

text \<open>
  \<^verbatim>\<open>valid_data\<close> is \<^verbatim>\<open>None\<close> or a data loader; \<^verbatim>\<open>not valid_data\<close> holds for \<^verbatim>\<open>None\<close> and for a
  loader whose \<^verbatim>\<open>len\<close> is 0.
\<close>

fun truthy :: "'b list option \<Rightarrow> bool" where
  "truthy None = False"
| "truthy (Some bs) = (bs \<noteq> [])"

fun batches :: "'b list option \<Rightarrow> 'b list" where
  "batches None = []"
| "batches (Some bs) = bs"

text \<open>How one pass through the body of the epoch loop ends: \<^verbatim>\<open>break\<close>, or on to the next epoch.\<close>

datatype loop_exit = Next | Break

text \<open>
  The body of the \<^verbatim>\<open>for epoch_idx in range(...)\<close> loop of \<^verbatim>\<open>Trainer.fit\<close>, in the two
  parts that the source marks \<^verbatim>\<open># train\<close> and \<^verbatim>\<open># eval\<close>. The first part trains, records
  the loss, saves a checkpoint and logs.
\<close>

definition fit_epoch_train ::
  "('p, 'o, 'b) model_ops \<Rightarrow> ('p, 'o, 'b) trainer \<Rightarrow> 'b list \<Rightarrow> bool \<Rightarrow> int
     \<Rightarrow> ('p, 'o, 'b) trainer \<times> (error + unit)" where
  "fit_epoch_train ops t train_data verbose epoch_idx =
     (case train_epoch ops t train_data epoch_idx of
        (t1, Inl err) \<Rightarrow> (t1, Inl err)
      | (t1, Inr (train_loss, train_ppl)) \<Rightarrow>
          (let t2 = t1\<lparr>train_loss_ppl_dict :=
                        (train_loss_ppl_dict t1)(epoch_idx \<mapsto> (train_loss, train_ppl))\<rparr>;
               t3 = save_checkpoint t2 epoch_idx
           in (log_info verbose (TrainLossOutput epoch_idx) t3, Inr ())))"

text \<open>The second part: the branch without validation, or validation and early stopping.\<close>

definition fit_epoch_eval ::
  "('p, 'o, 'b) model_ops \<Rightarrow> ('p, 'o, 'b) trainer \<Rightarrow> 'b list option \<Rightarrow> bool \<Rightarrow> bool \<Rightarrow> int
     \<Rightarrow> ('p, 'o, 'b) trainer \<times> (error + loop_exit)" where
  "fit_epoch_eval ops t valid_data verbose saved epoch_idx =
     (if eval_step t \<le> 0 \<or> \<not> truthy valid_data then
        (if saved then
           (log_info verbose (SavingCurrent (saved_model_file t)) (save_checkpoint t epoch_idx),
            Inr Next)
         else (t, Inr Next))
      else if (epoch_idx + 1) mod eval_step t = 0 then
        (case valid_epoch ops t (batches valid_data) of
           (t5, Inl err) \<Rightarrow> (t5, Inl err)
         | (t5, Inr (valid_score, valid_result)) \<Rightarrow>
             (case early_stopping valid_score (best_valid_score t5) (cur_step t5)
                     (stopping_step t5) False of
                (best, cur, stop_flag, update_flag) \<Rightarrow>
                  (let t6 = t5\<lparr>best_valid_score := best, cur_step := cur\<rparr>;
                       t7 = log_info verbose ValidResultOutput
                              (log_info verbose (ValidScoreOutput epoch_idx) t6);
                       t8 = (if update_flag then
                               (if saved then
                                  log_info verbose (SavingCurrentBest (saved_model_file t7))
                                    (save_checkpoint t7 epoch_idx)
                                else t7)\<lparr>best_valid_result := Some valid_result\<rparr>
                             else t7)
                   in if stop_flag then
                        (log_info verbose
                           (FinishedTraining (epoch_idx - cur_step t8 * eval_step t8)) t8,
                         Inr Break)
                      else (t8, Inr Next))))
      else (t, Inr Next))"

definition fit_epoch ::
  "('p, 'o, 'b) model_ops \<Rightarrow> ('p, 'o, 'b) trainer \<Rightarrow> 'b list \<Rightarrow> 'b list option \<Rightarrow> bool \<Rightarrow> bool
     \<Rightarrow> int \<Rightarrow> ('p, 'o, 'b) trainer \<times> (error + loop_exit)" where
  "fit_epoch ops t train_data valid_data verbose saved epoch_idx =
     (case fit_epoch_train ops t train_data verbose epoch_idx of
        (t4, Inl err) \<Rightarrow> (t4, Inl err)
      | (t4, Inr _) \<Rightarrow> fit_epoch_eval ops t4 valid_data verbose saved epoch_idx)"

text \<open>The epoch loop of \<^verbatim>\<open>Trainer.fit\<close> over the epoch indices that are left.\<close>

fun fit_loop ::
  "('p, 'o, 'b) model_ops \<Rightarrow> ('p, 'o, 'b) trainer \<Rightarrow> 'b list \<Rightarrow> 'b list option \<Rightarrow> bool \<Rightarrow> bool
     \<Rightarrow> int list \<Rightarrow> ('p, 'o, 'b) trainer \<times> (error + unit)" where
  "fit_loop ops t train_data valid_data verbose saved [] = (t, Inr ())"
| "fit_loop ops t train_data valid_data verbose saved (epoch_idx # rest) =
     (case fit_epoch ops t train_data valid_data verbose saved epoch_idx of
        (t1, Inl err) \<Rightarrow> (t1, Inl err)
      | (t1, Inr Break) \<Rightarrow> (t1, Inr ())
      | (t1, Inr Next) \<Rightarrow> fit_loop ops t1 train_data valid_data verbose saved rest)"

text \<open>
  \<^verbatim>\<open>Trainer.fit\<close>: the loop over \<^verbatim>\<open>range(self.start_epoch, self.epochs)\<close>, then
  \<^verbatim>\<open>return self.best_valid_score, self.best_valid_result\<close>.
\<close>

definition fit ::
  "('p, 'o, 'b) model_ops \<Rightarrow> ('p, 'o, 'b) trainer \<Rightarrow> 'b list \<Rightarrow> 'b list option \<Rightarrow> bool \<Rightarrow> bool
     \<Rightarrow> ('p, 'o, 'b) trainer \<times> (error + pyfloat \<times> pyfloat option)" where
  "fit ops t train_data valid_data verbose saved =
     (case fit_loop ops t train_data valid_data verbose saved [start_epoch t..epochs t - 1] of
        (t1, Inl err) \<Rightarrow> (t1, Inl err)
      | (t1, Inr _) \<Rightarrow> (t1, Inr (best_valid_score t1, best_valid_result t1)))"

section \<open>The adversarial trainers\<close>

text \<open>
  \<^verbatim>\<open>GANTrainer\<close> trains two modules of the model, each with its own optimizer.
\<close>

datatype module = Generator | Discriminator

text \<open>
  The loss methods that \<^verbatim>\<open>GANTrainer\<close> calls, with their arguments:
  \<^verbatim>\<open>calculate_g_train_loss(data, epoch_idx)\<close>,
  \<^verbatim>\<open>calculate_d_train_loss(real_data, fake_data, epoch_idx)\<close> and
  \<^verbatim>\<open>calculate_g_adversarial_loss(epoch_idx)\<close>.
\<close>

datatype ('b, 'd) loss_call =
    GTrainLoss 'b int
  | DTrainLoss 'd 'd int
  | GAdversarialLoss int

text \<open>
  The collaborators of \<^verbatim>\<open>GANTrainer\<close>:
  \<^item> \<open>gan_loss params call\<close> is the loss method named by \<open>call\<close>;
  \<^item> \<open>gan_step m params opt call\<close> is the effect of the backward passes, the gradient
    clipping and the steps of the optimizer(s) \<open>opt\<close> of module \<open>m\<close> for that loss;
  \<^item> \<open>get_name m\<close> is \<^verbatim>\<open>_get_name()\<close> of the module;
  \<^item> \<open>real_dataloader train_data k\<close> are the batches that the shuffled loader over
    \<^verbatim>\<open>_get_real_data(train_data)\<close> yields when it is iterated for the \<open>k\<close>-th time, and
    \<open>fake_dataloader params k\<close> those of the loader over \<^verbatim>\<open>model.sample(d_sample_num)\<close>;
  \<^item> \<open>gan_tensor_add\<close> is the addition of torch on the loss tensors of the model.
\<close>

record ('p, 'o, 'b, 'd) gan_ops =
  gan_loss :: "'p \<Rightarrow> ('b, 'd) loss_call \<Rightarrow> losses"
  gan_step :: "module \<Rightarrow> 'p \<Rightarrow> 'o module_optimizer \<Rightarrow> ('b, 'd) loss_call
                 \<Rightarrow> 'p \<times> 'o module_optimizer"
  get_name :: "module \<Rightarrow> string"
  real_dataloader :: "'b list \<Rightarrow> nat \<Rightarrow> 'd list"
  fake_dataloader :: "'p \<Rightarrow> nat \<Rightarrow> 'd list"
  gan_tensor_add :: "pyfloat \<Rightarrow> pyfloat \<Rightarrow> pyfloat"

text \<open>
  The fields of a \<^verbatim>\<open>GANTrainer\<close> that the modelled methods use. Those inherited from
  \<^verbatim>\<open>Trainer\<close> carry the prefix \<open>gan_\<close>. No \<^verbatim>\<open>__init__\<close> of the class chain assigns
  \<^verbatim>\<open>self.train_loss_dict\<close> (\<^verbatim>\<open>Trainer.__init__\<close> assigns \<^verbatim>\<open>train_loss_ppl_dict\<close>), so this
  attribute is optional: \<open>None\<close> when the object does not have it. \<open>'c\<close> describes the
  loss calls in the trace.
\<close>

record ('p, 'o, 'c) gan_trainer =
  gan_config :: config
  gan_saved_model_file :: string
  gan_start_epoch :: int
  gan_cur_step :: int
  gan_best_valid_score :: pyfloat
  g_optimizer :: "'o module_optimizer"
  d_optimizer :: "'o module_optimizer"
  g_pretraining_epochs :: int
  d_pretraining_epochs :: int
  d_sample_training_epochs :: int
  adversarail_training_epochs :: int
  adversarail_d_epochs :: int
  g_pretraining_loss_dict :: "int \<rightharpoonup> pyfloat"
  d_pretraining_loss_dict :: "int \<rightharpoonup> pyfloat"
  train_loss_dict :: "(int \<rightharpoonup> pyfloat) option"
  gan_model :: 'p
  gan_trace :: "('p, 'o, 'c) event list"

definition gan_emit :: "('p, 'o, 'c) event \<Rightarrow> ('p, 'o, 'c) gan_trainer \<Rightarrow> ('p, 'o, 'c) gan_trainer" where
  "gan_emit ev t = t\<lparr>gan_trace := gan_trace t @ [ev]\<rparr>"

definition gan_log_info ::
  "bool \<Rightarrow> message \<Rightarrow> ('p, 'o, 'c) gan_trainer \<Rightarrow> ('p, 'o, 'c) gan_trainer" where
  "gan_log_info verbose msg t = (if verbose then gan_emit (Log (Info msg)) t else t)"

text \<open>
  \<^verbatim>\<open>GANTrainer.__init__\<close>: the constructor of \<^verbatim>\<open>Trainer\<close> runs first (its optimizer is
  built, which may log or raise, and is then replaced by \<^verbatim>\<open>None\<close>), then the two module
  optimizers are built. \<open>gname\<close> and \<open>dname\<close> are the names of the generator and of the
  discriminator, \<open>ost\<close>, \<open>gst\<close> and \<open>dst\<close> the fresh optimizer states (for a module: whole,
  manager part, worker part).
\<close>

definition gan_trainer_init ::
  "config \<Rightarrow> 'p \<Rightarrow> 'o optim_new \<Rightarrow> string \<Rightarrow> string \<Rightarrow> 'o \<Rightarrow> 'o \<times> 'o \<times> 'o \<Rightarrow> 'o \<times> 'o \<times> 'o
     \<Rightarrow> string \<Rightarrow> ('p, 'o, 'c) event list \<Rightarrow> error + ('p, 'o, 'c) gan_trainer" where
  "gan_trainer_init cfg m new gname dname ost gst dst now tr =
     (case build_optimizer new (cfg_learner cfg) (cfg_learning_rate cfg) ost of
        (Inl err, logs) \<Rightarrow> Inl err
      | (Inr opt, logs) \<Rightarrow>
     (case build_module_optimizer new gname (cfg_learner cfg) (cfg_learning_rate cfg)
             (fst gst) (fst (snd gst)) (snd (snd gst)) of
        (Inl err, g_logs) \<Rightarrow> Inl err
      | (Inr g_opt, g_logs) \<Rightarrow>
     (case build_module_optimizer new dname (cfg_learner cfg) (cfg_learning_rate cfg)
             (fst dst) (fst (snd dst)) (snd (snd dst)) of
        (Inl err, d_logs) \<Rightarrow> Inl err
      | (Inr d_opt, d_logs) \<Rightarrow>
          Inr \<lparr>gan_config = cfg,
               gan_saved_model_file =
                 path_join (cfg_checkpoint_dir cfg) (cfg_model cfg @ ''-'' @ now @ ''.pth''),
               gan_start_epoch = 0,
               gan_cur_step = 0,
               gan_best_valid_score = Fin 100000000,
               g_optimizer = g_opt,
               d_optimizer = d_opt,
               g_pretraining_epochs = cfg_g_pretraining_epochs cfg,
               d_pretraining_epochs = cfg_d_pretraining_epochs cfg,
               d_sample_training_epochs = cfg_d_sample_training_epochs cfg,
               adversarail_training_epochs = cfg_adversarail_training_epochs cfg,
               adversarail_d_epochs = cfg_adversarail_d_epochs cfg,
               g_pretraining_loss_dict = Map.empty,
               d_pretraining_loss_dict = Map.empty,
               train_loss_dict = None,
               gan_model = m,
               gan_trace = tr @ map Log (logs @ g_logs @ d_logs)\<rparr>)))"

text \<open>\<^verbatim>\<open>GANTrainer._save_checkpoint\<close>: the dictionary has no key \<^verbatim>\<open>'optimizer'\<close>.\<close>

definition gan_save_checkpoint :: "('p, 'o, 'c) gan_trainer \<Rightarrow> int \<Rightarrow> ('p, 'o, 'c) gan_trainer" where
  "gan_save_checkpoint t epoch =
     (let state = \<lparr>ck_config = gan_config t,
                   ck_epoch = epoch,
                   ck_cur_step = gan_cur_step t,
                   ck_best_valid_score = gan_best_valid_score t,
                   ck_state_dict = gan_model t,
                   ck_optimizer = None\<rparr>
      in gan_emit (TorchSave (gan_saved_model_file t) state) t)"

text \<open>
  \<^verbatim>\<open>Trainer.resume_checkpoint\<close> as \<^verbatim>\<open>GANTrainer\<close> inherits it. \<open>fits\<close> says whether
  \<^verbatim>\<open>model.load_state_dict\<close> accepts the saved parameters. In an adversarial trainer
  \<^verbatim>\<open>self.optimizer\<close> is \<^verbatim>\<open>None\<close>, so \<^verbatim>\<open>self.optimizer.load_state_dict\<close> raises
  \<^verbatim>\<open>AttributeError\<close>, after the counters and the parameters have been assigned.
\<close>

definition gan_resume_checkpoint ::
  "('p \<Rightarrow> 'p \<Rightarrow> bool) \<Rightarrow> ('p, 'o, 'c) gan_trainer \<Rightarrow> string
     \<Rightarrow> ('p, 'o, 'c) gan_trainer \<times> (error + unit)" where
  "gan_resume_checkpoint fits t resume_file =
     (case torch_load (gan_trace t) resume_file of
        None \<Rightarrow> (t, Inl FileNotFoundError)
      | Some ck \<Rightarrow>
          (let t1 = t\<lparr>gan_start_epoch := ck_epoch ck + 1,
                      gan_cur_step := ck_cur_step ck,
                      gan_best_valid_score := ck_best_valid_score ck\<rparr>;
               t2 = (if lower (cfg_model (ck_config ck)) \<noteq> lower (cfg_model (gan_config t1))
                     then gan_emit (Log (Warning ArchitectureDiffers)) t1 else t1)
           in if \<not> fits (gan_model t2) (ck_state_dict ck) then (t2, Inl RuntimeError)
              else (t2\<lparr>gan_model := ck_state_dict ck\<rparr>, Inl AttributeError)))"

fun optimizer_of :: "module \<Rightarrow> ('p, 'o, 'c) gan_trainer \<Rightarrow> 'o module_optimizer" where
  "optimizer_of Generator t = g_optimizer t"
| "optimizer_of Discriminator t = d_optimizer t"

fun set_module_optimizer ::
  "module \<Rightarrow> 'o module_optimizer \<Rightarrow> ('p, 'o, 'c) gan_trainer \<Rightarrow> ('p, 'o, 'c) gan_trainer" where
  "set_module_optimizer Generator opt t = t\<lparr>g_optimizer := opt\<rparr>"
| "set_module_optimizer Discriminator opt t = t\<lparr>d_optimizer := opt\<rparr>"

text \<open>
  The backward pass and the optimizer step at the end of \<^verbatim>\<open>_optimize_step\<close>, on module
  \<open>m\<close> and its optimizer, as the collaborator \<open>step\<close> performs it.
\<close>

definition apply_step ::
  "('p \<Rightarrow> 'o module_optimizer \<Rightarrow> 'p \<times> 'o module_optimizer) \<Rightarrow> module
     \<Rightarrow> ('p, 'o, 'c) gan_trainer \<Rightarrow> ('p, 'o, 'c) gan_trainer" where
  "apply_step step m t =
     (case step (gan_model t) (optimizer_of m t) of
        (p, opt) \<Rightarrow> gan_emit OptimizerStep (set_module_optimizer m opt (t\<lparr>gan_model := p\<rparr>)))"

text \<open>
  \<^verbatim>\<open>GANTrainer._optimize_multi_step\<close>: \<^verbatim>\<open>zip(opts, losses)\<close> needs a pair of optimizers and a
  tuple of losses (an optimizer object and a scalar tensor cannot be iterated:
  \<^verbatim>\<open>TypeError\<close>). The backward passes and steps of the loop are one call of the collaborator.
\<close>

definition optimize_multi_step ::
  "('p, 'o, 'b, 'd) gan_ops \<Rightarrow> ('p, 'o, 'c) gan_trainer \<Rightarrow> ('b, 'd) loss_call \<Rightarrow> losses \<Rightarrow> module
     \<Rightarrow> ('p, 'o, 'c) gan_trainer \<times> (error + unit)" where
  "optimize_multi_step ops t call losses m =
     (case (optimizer_of m t, losses) of
        (ManagerWorker a b, Tuple ls) \<Rightarrow> (apply_step (\<lambda>p opt. gan_step ops m p opt call) m t, Inr ())
      | _ \<Rightarrow> (t, Inl TypeError))"

text \<open>
  \<^verbatim>\<open>GANTrainer._optimize_step(losses, total_loss, model, opt)\<close>, where \<open>m\<close> says which
  module \<^verbatim>\<open>model\<close> is; \<^verbatim>\<open>opt\<close> is the optimizer of that module at every call. The result is
  the new \<^verbatim>\<open>total_loss\<close>.
\<close>

definition optimize_step ::
  "('p, 'o, 'b, 'd) gan_ops \<Rightarrow> ('p, 'o, 'c) gan_trainer \<Rightarrow> ('b, 'd) loss_call \<Rightarrow> losses
     \<Rightarrow> losses option \<Rightarrow> module \<Rightarrow> ('p, 'o, 'c) gan_trainer \<times> (error + losses)" where
  "optimize_step ops t call losses total_loss m =
     (case accumulate total_loss losses of
        Inl err \<Rightarrow> (t, Inl err)
      | Inr total_loss' \<Rightarrow>
          (case check_nan (combined_loss (gan_tensor_add ops) losses) of
             Inl err \<Rightarrow> (t, Inl err)
           | Inr _ \<Rightarrow>
               if get_name ops m = ''LeakGANGenerator'' then
                 (case optimize_multi_step ops t call losses m of
                    (t1, Inl err) \<Rightarrow> (t1, Inl err)
                  | (t1, Inr _) \<Rightarrow> (t1, Inr total_loss'))
               else (apply_step (\<lambda>p opt. gan_step ops m p opt call) m t, Inr total_loss')))"

text \<open>The \<^verbatim>\<open>for\<close> loop of \<^verbatim>\<open>GANTrainer._g_train_epoch\<close>.\<close>

fun g_train_loop ::
  "('p, 'o, 'b, 'd) gan_ops \<Rightarrow> int \<Rightarrow> ('p, 'o, ('b, 'd) loss_call \<times> losses) gan_trainer
     \<Rightarrow> losses option \<Rightarrow> 'b list
     \<Rightarrow> ('p, 'o, ('b, 'd) loss_call \<times> losses) gan_trainer \<times> (error + losses option)" where
  "g_train_loop ops epoch_idx t total_loss [] = (t, Inr total_loss)"
| "g_train_loop ops epoch_idx t total_loss (data # rest) =
     (let call = GTrainLoss data epoch_idx;
          losses = gan_loss ops (gan_model t) call;
          t1 = gan_emit (CalculateLoss (call, losses)) t
      in case optimize_step ops t1 call losses total_loss Generator of
           (t2, Inl err) \<Rightarrow> (t2, Inl err)
         | (t2, Inr total_loss') \<Rightarrow> g_train_loop ops epoch_idx t2 (Some total_loss') rest)"

text \<open>
  The end of \<^verbatim>\<open>GANTrainer._g_train_epoch\<close>: a tuple total is divided position by position,
  a float total as a whole.
\<close>

fun g_epoch_mean :: "losses option \<Rightarrow> nat \<Rightarrow> error + losses" where
  "g_epoch_mean (Some (Tuple xs)) n =
     (if xs \<noteq> [] \<and> n = 0 then Inl ZeroDivisionError else Inr (Tuple (map (\<lambda>l. fdiv l n) xs)))"
| "g_epoch_mean total_loss n =
     (case truediv total_loss n of Inl err \<Rightarrow> Inl err | Inr x \<Rightarrow> Inr (Scalar x))"

text \<open>\<^verbatim>\<open>GANTrainer._g_train_epoch\<close>\<close>

definition g_train_epoch ::
  "('p, 'o, 'b, 'd) gan_ops \<Rightarrow> ('p, 'o, ('b, 'd) loss_call \<times> losses) gan_trainer \<Rightarrow> 'b list \<Rightarrow> int
     \<Rightarrow> ('p, 'o, ('b, 'd) loss_call \<times> losses) gan_trainer \<times> (error + losses)" where
  "g_train_epoch ops t train_data epoch_idx =
     (case g_train_loop ops epoch_idx (gan_emit ModelTrain t) None train_data of
        (t1, Inl err) \<Rightarrow> (t1, Inl err)
      | (t1, Inr total_loss) \<Rightarrow> (t1, g_epoch_mean total_loss (length train_data)))"

text \<open>
  The inner loop of \<^verbatim>\<open>GANTrainer._d_train_epoch\<close>, over the pairs of
  \<^verbatim>\<open>zip(real_dataloader, fake_dataloader)\<close>.
\<close>

fun d_batch_loop ::
  "('p, 'o, 'b, 'd) gan_ops \<Rightarrow> int \<Rightarrow> ('p, 'o, ('b, 'd) loss_call \<times> losses) gan_trainer
     \<Rightarrow> losses option \<Rightarrow> ('d \<times> 'd) list
     \<Rightarrow> ('p, 'o, ('b, 'd) loss_call \<times> losses) gan_trainer \<times> (error + losses option)" where
  "d_batch_loop ops epoch_idx t total_loss [] = (t, Inr total_loss)"
| "d_batch_loop ops epoch_idx t total_loss ((real_data, fake_data) # rest) =
     (let call = DTrainLoss real_data fake_data epoch_idx;
          losses = gan_loss ops (gan_model t) call;
          t1 = gan_emit (CalculateLoss (call, losses)) t
      in case optimize_step ops t1 call losses total_loss Discriminator of
           (t2, Inl err) \<Rightarrow> (t2, Inl err)
         | (t2, Inr total_loss') \<Rightarrow> d_batch_loop ops epoch_idx t2 (Some total_loss') rest)"

text \<open>
  The outer loop, \<^verbatim>\<open>for _ in range(self.d_sample_training_epochs)\<close>; \<open>sampled\<close> are the
  parameters with which \<^verbatim>\<open>model.sample\<close> made the fake data, before the loop.
\<close>

fun d_pass_loop ::
  "('p, 'o, 'b, 'd) gan_ops \<Rightarrow> int \<Rightarrow> 'b list \<Rightarrow> 'p \<Rightarrow> ('p, 'o, ('b, 'd) loss_call \<times> losses) gan_trainer
     \<Rightarrow> losses option \<Rightarrow> nat list
     \<Rightarrow> ('p, 'o, ('b, 'd) loss_call \<times> losses) gan_trainer \<times> (error + losses option)" where
  "d_pass_loop ops epoch_idx train_data sampled t total_loss [] = (t, Inr total_loss)"
| "d_pass_loop ops epoch_idx train_data sampled t total_loss (k # ks) =
     (case d_batch_loop ops epoch_idx t total_loss
             (zip (real_dataloader ops train_data k) (fake_dataloader ops sampled k)) of
        (t1, Inl err) \<Rightarrow> (t1, Inl err)
      | (t1, Inr total_loss') \<Rightarrow> d_pass_loop ops epoch_idx train_data sampled t1 total_loss' ks)"

text \<open>
  \<^verbatim>\<open>GANTrainer._d_train_epoch\<close>; the result is
  \<^verbatim>\<open>total_loss / min(len(real_dataloader), len(fake_dataloader)) / self.d_sample_training_epochs\<close>.
\<close>

definition d_train_epoch ::
  "('p, 'o, 'b, 'd) gan_ops \<Rightarrow> ('p, 'o, ('b, 'd) loss_call \<times> losses) gan_trainer \<Rightarrow> 'b list \<Rightarrow> int
     \<Rightarrow> ('p, 'o, ('b, 'd) loss_call \<times> losses) gan_trainer \<times> (error + pyfloat)" where
  "d_train_epoch ops t train_data epoch_idx =
     (let t0 = gan_emit ModelTrain t;
          sampled = gan_model t0
      in case d_pass_loop ops epoch_idx train_data sampled t0 None
                [0..<nat (d_sample_training_epochs t0)] of
           (t1, Inl err) \<Rightarrow> (t1, Inl err)
         | (t1, Inr total_loss) \<Rightarrow>
             (case truediv total_loss
                     (min (length (real_dataloader ops train_data 0))
                          (length (fake_dataloader ops sampled 0))) of
                Inl err \<Rightarrow> (t1, Inl err)
              | Inr x \<Rightarrow> (t1, truediv (Some (Scalar x)) (nat (d_sample_training_epochs t1)))))"

text \<open>The loop \<^verbatim>\<open>for epoch_idx in range(self.adversarail_d_epochs)\<close>; the results are dropped.\<close>

fun adversarial_d_loop ::
  "('p, 'o, 'b, 'd) gan_ops \<Rightarrow> ('p, 'o, ('b, 'd) loss_call \<times> losses) gan_trainer \<Rightarrow> 'b list \<Rightarrow> int list
     \<Rightarrow> ('p, 'o, ('b, 'd) loss_call \<times> losses) gan_trainer \<times> (error + unit)" where
  "adversarial_d_loop ops t train_data [] = (t, Inr ())"
| "adversarial_d_loop ops t train_data (epoch_idx # rest) =
     (case d_train_epoch ops t train_data epoch_idx of
        (t1, Inl err) \<Rightarrow> (t1, Inl err)
      | (t1, Inr _) \<Rightarrow> adversarial_d_loop ops t1 train_data rest)"

text \<open>\<^verbatim>\<open>GANTrainer._adversarial_train_epoch\<close>; the result is the loss of the generator step.\<close>

definition adversarial_train_epoch ::
  "('p, 'o, 'b, 'd) gan_ops \<Rightarrow> ('p, 'o, ('b, 'd) loss_call \<times> losses) gan_trainer \<Rightarrow> 'b list \<Rightarrow> int
     \<Rightarrow> ('p, 'o, ('b, 'd) loss_call \<times> losses) gan_trainer \<times> (error + losses)" where
  "adversarial_train_epoch ops t train_data epoch_idx =
     (let t0 = gan_emit ModelTrain t;
          call = GAdversarialLoss epoch_idx;
          losses = gan_loss ops (gan_model t0) call;
          t1 = gan_emit (CalculateLoss (call, losses)) t0
      in case optimize_step ops t1 call losses None Generator of
           (t2, Inl err) \<Rightarrow> (t2, Inl err)
         | (t2, Inr total_loss) \<Rightarrow>
             (case adversarial_d_loop ops t2 train_data [0..adversarail_d_epochs t2 - 1] of
                (t3, Inl err) \<Rightarrow> (t3, Inl err)
              | (t3, Inr _) \<Rightarrow> (t3, Inr total_loss)))"

text \<open>\<^verbatim>\<open>sum(train_loss) if isinstance(train_loss, tuple) else train_loss\<close>, on Python floats.\<close>

fun loss_sum :: "losses \<Rightarrow> pyfloat" where
  "loss_sum (Tuple xs) = foldl fadd (Fin 0) xs"
| "loss_sum (Scalar x) = x"

text \<open>The three epoch loops of \<^verbatim>\<open>GANTrainer.fit\<close>.\<close>

fun g_pretraining_loop ::
  "('p, 'o, 'b, 'd) gan_ops \<Rightarrow> ('p, 'o, ('b, 'd) loss_call \<times> losses) gan_trainer \<Rightarrow> 'b list \<Rightarrow> bool
     \<Rightarrow> int list \<Rightarrow> ('p, 'o, ('b, 'd) loss_call \<times> losses) gan_trainer \<times> (error + unit)" where
  "g_pretraining_loop ops t train_data verbose [] = (t, Inr ())"
| "g_pretraining_loop ops t train_data verbose (epoch_idx # rest) =
     (case g_train_epoch ops t train_data epoch_idx of
        (t1, Inl err) \<Rightarrow> (t1, Inl err)
      | (t1, Inr train_loss) \<Rightarrow>
          g_pretraining_loop ops
            (gan_log_info verbose (TrainLossOutput epoch_idx)
               (t1\<lparr>g_pretraining_loss_dict :=
                     (g_pretraining_loss_dict t1)(epoch_idx \<mapsto> loss_sum train_loss)\<rparr>))
            train_data verbose rest)"

fun d_pretraining_loop ::
  "('p, 'o, 'b, 'd) gan_ops \<Rightarrow> ('p, 'o, ('b, 'd) loss_call \<times> losses) gan_trainer \<Rightarrow> 'b list \<Rightarrow> bool
     \<Rightarrow> int list \<Rightarrow> ('p, 'o, ('b, 'd) loss_call \<times> losses) gan_trainer \<times> (error + unit)" where
  "d_pretraining_loop ops t train_data verbose [] = (t, Inr ())"
| "d_pretraining_loop ops t train_data verbose (epoch_idx # rest) =
     (case d_train_epoch ops t train_data epoch_idx of
        (t1, Inl err) \<Rightarrow> (t1, Inl err)
      | (t1, Inr train_loss) \<Rightarrow>
          d_pretraining_loop ops
            (gan_log_info verbose (TrainLossOutput epoch_idx)
               (t1\<lparr>d_pretraining_loss_dict :=
                     (d_pretraining_loss_dict t1)(epoch_idx \<mapsto> train_loss)\<rparr>))
            train_data verbose rest)"

text \<open>
  In the adversarial loop the loss is stored by \<^verbatim>\<open>self.train_loss_dict[epoch_idx] = ...\<close>:
  reading the attribute \<^verbatim>\<open>train_loss_dict\<close> of an object that does not have it raises
  \<^verbatim>\<open>AttributeError\<close>.
\<close>

fun adversarial_training_loop ::
  "('p, 'o, 'b, 'd) gan_ops \<Rightarrow> ('p, 'o, ('b, 'd) loss_call \<times> losses) gan_trainer \<Rightarrow> 'b list \<Rightarrow> bool
     \<Rightarrow> int list \<Rightarrow> ('p, 'o, ('b, 'd) loss_call \<times> losses) gan_trainer \<times> (error + unit)" where
  "adversarial_training_loop ops t train_data verbose [] = (t, Inr ())"
| "adversarial_training_loop ops t train_data verbose (epoch_idx # rest) =
     (case adversarial_train_epoch ops t train_data epoch_idx of
        (t1, Inl err) \<Rightarrow> (t1, Inl err)
      | (t1, Inr train_loss) \<Rightarrow>
          (case train_loss_dict t1 of
             None \<Rightarrow> (t1, Inl AttributeError)
           | Some d \<Rightarrow>
               adversarial_training_loop ops
                 (gan_log_info verbose (TrainLossOutput epoch_idx)
                    (t1\<lparr>train_loss_dict := Some (d(epoch_idx \<mapsto> loss_sum train_loss))\<rparr>))
                 train_data verbose rest))"

text \<open>
  \<^verbatim>\<open>GANTrainer.fit\<close>, inherited by all adversarial trainers. \<^verbatim>\<open>valid_data\<close> and \<^verbatim>\<open>saved\<close> are
  not read. The result is \<^verbatim>\<open>(-1, None)\<close>.
\<close>

definition gan_fit ::
  "('p, 'o, 'b, 'd) gan_ops \<Rightarrow> ('p, 'o, ('b, 'd) loss_call \<times> losses) gan_trainer \<Rightarrow> 'b list
     \<Rightarrow> 'b list option \<Rightarrow> bool \<Rightarrow> bool
     \<Rightarrow> ('p, 'o, ('b, 'd) loss_call \<times> losses) gan_trainer \<times> (error + int \<times> pyfloat option)" where
  "gan_fit ops t train_data valid_data verbose saved =
     (let t1 = gan_log_info verbose StartGeneratorPretraining t
      in case g_pretraining_loop ops t1 train_data verbose [0..g_pretraining_epochs t1 - 1] of
           (t2, Inl err) \<Rightarrow> (t2, Inl err)
         | (t2, Inr _) \<Rightarrow>
      (let t3 = gan_log_info verbose StartDiscriminatorPretraining
                  (gan_log_info verbose EndGeneratorPretraining t2)
       in case d_pretraining_loop ops t3 train_data verbose [0..d_pretraining_epochs t3 - 1] of
            (t4, Inl err) \<Rightarrow> (t4, Inl err)
          | (t4, Inr _) \<Rightarrow>
      (let t5 = gan_log_info verbose StartAdversarialTraining
                  (gan_log_info verbose EndDiscriminatorPretraining t4)
       in case adversarial_training_loop ops t5 train_data verbose
                 [0..adversarail_training_epochs t5 - 1] of
            (t6, Inl err) \<Rightarrow> (t6, Inl err)
          | (t6, Inr _) \<Rightarrow>
              (gan_save_checkpoint (gan_log_info verbose EndAdversarialPretraining t6)
                 (adversarail_training_epochs t6),
               Inr (- 1, None)))))"

subsection \<open>The interleaved variant\<close>

text \<open>
  The loss methods that \<^verbatim>\<open>MaskGANTrainer._adversarial_train_epoch\<close> calls, with their
  arguments and results: \<^verbatim>\<open>calculate_d_train_loss(d_x, epoch_idx=_, is_advtrain=True)\<close>, and
  \<^verbatim>\<open>calculate_g_adversarial_loss(g_x, epoch_idx=g_num)\<close>, which returns the generator's
  losses and the critic's. The other collaborators are the backward pass and optimizer
  step \<open>mask_step\<close> and the addition of torch on the loss tensors, \<open>mask_tensor_add\<close>.
\<close>

datatype 'b mask_call =
    MaskDLoss 'b int losses
  | MaskGLoss 'b nat losses losses

record ('p, 'o, 'b) mask_ops =
  calculate_d_train_loss :: "'p \<Rightarrow> 'b \<Rightarrow> int \<Rightarrow> losses"
  calculate_g_adversarial_loss :: "'p \<Rightarrow> 'b \<Rightarrow> nat \<Rightarrow> losses \<times> losses"
  mask_step :: "module \<Rightarrow> bool \<Rightarrow> 'p \<Rightarrow> 'o module_optimizer \<Rightarrow> 'p \<times> 'o module_optimizer"
  mask_tensor_add :: "pyfloat \<Rightarrow> pyfloat \<Rightarrow> pyfloat"

text \<open>
  \<^verbatim>\<open>MaskGANTrainer._optimize_step(losses, total_loss, model, opt, retain_graph)\<close>: as in
  \<^verbatim>\<open>GANTrainer\<close>, without the branch for split parameters.
\<close>

definition mask_optimize_step ::
  "('p, 'o, 'b) mask_ops \<Rightarrow> ('p, 'o, 'c) gan_trainer \<Rightarrow> losses \<Rightarrow> losses option \<Rightarrow> module \<Rightarrow> bool
     \<Rightarrow> ('p, 'o, 'c) gan_trainer \<times> (error + losses)" where
  "mask_optimize_step ops t losses total_loss m retain_graph =
     (case accumulate total_loss losses of
        Inl err \<Rightarrow> (t, Inl err)
      | Inr total_loss' \<Rightarrow>
          (case check_nan (combined_loss (mask_tensor_add ops) losses) of
             Inl err \<Rightarrow> (t, Inl err)
           | Inr _ \<Rightarrow> (apply_step (mask_step ops m retain_graph) m t, Inr total_loss')))"

text \<open>
  An iterator over the batches is the list of the batches it has not yet yielded.
  \<^verbatim>\<open>next(it)\<close> yields the first of them, or raises \<^verbatim>\<open>StopIteration\<close>;
  \<^verbatim>\<open>copy.deepcopy(train_data)\<close> is an iterator at the start of the data.
\<close>

fun next_batch :: "'b list \<Rightarrow> error + 'b \<times> 'b list" where
  "next_batch [] = Inl StopIteration"
| "next_batch (x # xs) = Inr (x, xs)"

text \<open>
  The \<^verbatim>\<open>try\<close> statement around \<^verbatim>\<open>next(dis_train_data)\<close>: on \<^verbatim>\<open>StopIteration\<close> the iterator
  is replaced by a new copy of \<^verbatim>\<open>train_data\<close> and \<^verbatim>\<open>next\<close> is called on that, outside the
  \<^verbatim>\<open>try\<close>.
\<close>

definition next_or_restart :: "'b list \<Rightarrow> 'b list \<Rightarrow> error + 'b \<times> 'b list" where
  "next_or_restart train_data dis_train_data =
     (case next_batch dis_train_data of
        Inr r \<Rightarrow> Inr r
      | Inl err \<Rightarrow> if err = StopIteration then next_batch train_data else Inl err)"

text \<open>
  The loop \<^verbatim>\<open>for _ in range(self.adversarail_d_epochs)\<close>; the state of the loop is the
  trainer, the discriminator's iterator, its running total and \<^verbatim>\<open>d_num\<close>.
\<close>

fun mask_d_loop ::
  "('p, 'o, 'b) mask_ops \<Rightarrow> 'b list \<Rightarrow> ('p, 'o, 'b mask_call) gan_trainer \<Rightarrow> 'b list
     \<Rightarrow> losses option \<Rightarrow> nat \<Rightarrow> int list
     \<Rightarrow> ('p, 'o, 'b mask_call) gan_trainer \<times> (error + 'b list \<times> losses option \<times> nat)" where
  "mask_d_loop ops train_data t dis_train_data dis_total_loss d_num [] =
     (t, Inr (dis_train_data, dis_total_loss, d_num))"
| "mask_d_loop ops train_data t dis_train_data dis_total_loss d_num (i # rest) =
     (case next_or_restart train_data dis_train_data of
        Inl err \<Rightarrow> (t, Inl err)
      | Inr (d_x, dis_train_data') \<Rightarrow>
          (let losses = calculate_d_train_loss ops (gan_model t) d_x i;
               t1 = gan_emit (CalculateLoss (MaskDLoss d_x i losses)) t
           in case mask_optimize_step ops t1 losses dis_total_loss Discriminator False of
                (t2, Inl err) \<Rightarrow> (t2, Inl err)
              | (t2, Inr total') \<Rightarrow>
                  mask_d_loop ops train_data t2 dis_train_data' (Some total') (d_num + 1) rest))"

text \<open>The loop \<^verbatim>\<open>for g_x in gen_train_data\<close>.\<close>

fun mask_g_loop ::
  "('p, 'o, 'b) mask_ops \<Rightarrow> 'b list \<Rightarrow> ('p, 'o, 'b mask_call) gan_trainer \<Rightarrow> 'b list
     \<Rightarrow> losses option \<Rightarrow> losses option \<Rightarrow> losses option \<Rightarrow> nat \<Rightarrow> nat \<Rightarrow> 'b list
     \<Rightarrow> ('p, 'o, 'b mask_call) gan_trainer
         \<times> (error + (losses option \<times> nat) \<times> (losses option \<times> nat) \<times> losses option)" where
  "mask_g_loop ops train_data t dis_train_data dis_total_loss gen_total_loss critic_total_loss
       g_num d_num [] =
     (t, Inr ((dis_total_loss, d_num), (gen_total_loss, g_num), critic_total_loss))"
| "mask_g_loop ops train_data t dis_train_data dis_total_loss gen_total_loss critic_total_loss
       g_num d_num (g_x # rest) =
     (case mask_d_loop ops train_data t dis_train_data dis_total_loss d_num
             [0..adversarail_d_epochs t - 1] of
        (t1, Inl err) \<Rightarrow> (t1, Inl err)
      | (t1, Inr (dis_train_data', dis_total_loss', d_num')) \<Rightarrow>
          (case calculate_g_adversarial_loss ops (gan_model t1) g_x (g_num + 1) of
             (gen_losses, critic_losses) \<Rightarrow>
               (let t2 = gan_emit (CalculateLoss (MaskGLoss g_x (g_num + 1) gen_losses critic_losses)) t1
                in case mask_optimize_step ops t2 gen_losses gen_total_loss Generator True of
                     (t3, Inl err) \<Rightarrow> (t3, Inl err)
                   | (t3, Inr gen_total') \<Rightarrow>
                       (case mask_optimize_step ops t3 critic_losses critic_total_loss
                               Discriminator False of
                          (t4, Inl err) \<Rightarrow> (t4, Inl err)
                        | (t4, Inr critic_total') \<Rightarrow>
                            mask_g_loop ops train_data t4 dis_train_data' dis_total_loss'
                              (Some gen_total') (Some critic_total') (g_num + 1) d_num' rest))))"

text \<open>
  \<^verbatim>\<open>MaskGANTrainer._adversarial_train_epoch\<close>. Before the loop one batch is taken from the
  discriminator's iterator, outside any \<^verbatim>\<open>try\<close>. The result is
  \<^verbatim>\<open>(dis_total_loss / d_num, gen_total_loss / g_num, critic_total_loss / g_num)\<close>.
\<close>

definition mask_adversarial_train_epoch ::
  "('p, 'o, 'b) mask_ops \<Rightarrow> ('p, 'o, 'b mask_call) gan_trainer \<Rightarrow> 'b list \<Rightarrow> int
     \<Rightarrow> ('p, 'o, 'b mask_call) gan_trainer \<times> (error + pyfloat \<times> pyfloat \<times> pyfloat)" where
  "mask_adversarial_train_epoch ops t train_data epoch_idx =
     (case next_batch train_data of
        Inl err \<Rightarrow> (t, Inl err)
      | Inr (_, dis_train_data) \<Rightarrow>
          (case mask_g_loop ops train_data t dis_train_data None None None 0 0 train_data of
             (t1, Inl err) \<Rightarrow> (t1, Inl err)
           | (t1, Inr ((dis_total_loss, d_num), (gen_total_loss, g_num), critic_total_loss)) \<Rightarrow>
               (case truediv dis_total_loss d_num of
                  Inl err \<Rightarrow> (t1, Inl err)
                | Inr dis_mean \<Rightarrow>
                    (case truediv gen_total_loss g_num of
                       Inl err \<Rightarrow> (t1, Inl err)
                     | Inr gen_mean \<Rightarrow>
                         (case truediv critic_total_loss g_num of
                            Inl err \<Rightarrow> (t1, Inl err)
                          | Inr critic_mean \<Rightarrow> (t1, Inr (dis_mean, gen_mean, critic_mean)))))))"

section \<open>Observations and example collaborators\<close>

text \<open>The effects between an earlier state \<open>t\<close> of a trainer and a later one \<open>t'\<close>.\<close>

definition new_events ::
  "('p, 'o, 'b) trainer \<Rightarrow> ('p, 'o, 'b) trainer \<Rightarrow> ('p, 'o, 'b \<times> losses) event list" where
  "new_events t t' = drop (length (trace t)) (trace t')"

text \<open>
  A configuration with the numbers of the adversarial scenario of the specification
  (no pretraining epochs, one adversarial epoch with one discriminator epoch).
\<close>

definition example_config :: config where
  "example_config =
     \<lparr>cfg_model = ''RNN'', cfg_learner = ''adam'', cfg_learning_rate = 1 / 1000,
      cfg_epochs = 2, cfg_eval_step = 1, cfg_stopping_step = 2, cfg_checkpoint_dir = ''saved'',
      cfg_g_pretraining_epochs = 0, cfg_d_pretraining_epochs = 0,
      cfg_d_sample_training_epochs = 1, cfg_adversarail_training_epochs = 1,
      cfg_adversarail_d_epochs = 1\<rparr>"

text \<open>
  The constructors of \<^verbatim>\<open>torch.optim\<close>, as far as the arguments that the trainers pass
  matter: each of the four classes first checks the learning rate and raises
  \<^verbatim>\<open>ValueError\<close> (\<^verbatim>\<open>Invalid learning rate\<close>) for a negative one.
\<close>

definition torch_optim :: "'o optim_new" where
  "torch_optim k lr st =
     (if lr < 0 then Inl ValueError else Inr \<lparr>opt_kind = k, opt_lr = lr, opt_state = st\<rparr>)"

text \<open>
  A model whose loss on a batch is \<open>f\<close> of the batch, whatever its parameters; the
  parameters and the optimizer state count the optimizer steps made. Its loss tensors are
  added without rounding, which is what every float type does with the small whole
  numbers of the examples.
\<close>

definition example_ops :: "('b \<Rightarrow> losses) \<Rightarrow> (nat, nat, 'b) model_ops" where
  "example_ops f =
     \<lparr>calculate_loss = (\<lambda>training p b e. f b),
      optimizer_step = (\<lambda>p opt b e. (Suc p, opt\<lparr>opt_state := Suc (opt_state opt)\<rparr>)),
      state_dict_fits = (\<lambda>p sd. True),
      optimizer_fits = (\<lambda>opt sd. True),
      tensor_add = fadd\<rparr>"

text \<open>The trainer that \<^verbatim>\<open>Trainer(config, model)\<close> constructs for this configuration.\<close>

definition example_trainer :: "(nat, nat, 'b) trainer" where
  "example_trainer =
     projr (trainer_init example_config 0 torch_optim 0 ''2020-Nov-14_12-00-00'' [])"

text \<open>
  An adversarial model with constant loss 1, one real and one fake batch per pass, and
  modules that are not a \<^verbatim>\<open>LeakGANGenerator\<close>.
\<close>

definition example_gan_ops :: "(nat, nat, 'b, nat) gan_ops" where
  "example_gan_ops =
     \<lparr>gan_loss = (\<lambda>p call. Scalar (Fin 1)),
      gan_step = (\<lambda>m p opt call. (Suc p, opt)),
      get_name = (\<lambda>m. case m of Generator \<Rightarrow> ''SeqGANGenerator''
                              | Discriminator \<Rightarrow> ''SeqGANDiscriminator''),
      real_dataloader = (\<lambda>train_data k. [0]),
      fake_dataloader = (\<lambda>p k. [1]),
      gan_tensor_add = fadd\<rparr>"

definition example_gan_trainer :: "(nat, nat, 'c) gan_trainer" where
  "example_gan_trainer =
     projr (gan_trainer_init example_config 0 torch_optim
              ''SeqGANGenerator'' ''SeqGANDiscriminator''
              0 (0, 0, 0) (0, 0, 0) ''2020-Nov-14_12-00-00'' [])"

text \<open>
  What the trace of an interleaved adversarial epoch says about the discriminator's
  micro-steps (the batch drawn and the loss returned, in order) and about the generator's
  steps (the batch, the generator's loss and the critic's).
\<close>

fun d_draws :: "('p, 'o, 'b mask_call) event list \<Rightarrow> ('b \<times> losses) list" where
  "d_draws [] = []"
| "d_draws (CalculateLoss (MaskDLoss d_x i ls) # evs) = (d_x, ls) # d_draws evs"
| "d_draws (_ # evs) = d_draws evs"

fun g_draws :: "('p, 'o, 'b mask_call) event list \<Rightarrow> ('b \<times> losses \<times> losses) list" where
  "g_draws [] = []"
| "g_draws (CalculateLoss (MaskGLoss g_x j gl cl) # evs) = (g_x, gl, cl) # g_draws evs"
| "g_draws (_ # evs) = g_draws evs"

text \<open>The sum of floats from left to right, and the mean: the sum divided by the count.\<close>

definition fsum :: "pyfloat list \<Rightarrow> pyfloat" where
  "fsum xs = foldl fadd (Fin 0) xs"

definition fmean :: "pyfloat list \<Rightarrow> pyfloat" where
  "fmean xs = fdiv (fsum xs) (length xs)"

text \<open>
  The running total after the scalar step losses \<open>xs\<close>: \<^verbatim>\<open>None\<close> before the first step,
  their sum from then on.
\<close>

definition running :: "pyfloat list \<Rightarrow> losses option" where
  "running xs = (if xs = [] then None else Some (Scalar (fsum xs)))"

text \<open>
  \<open>stepped t t' evs\<close>: the adversarial trainer has gone from \<open>t\<close> to \<open>t'\<close> by steps that
  touch the model, the two optimizers and the trace only, with the effects \<open>evs\<close>.
\<close>

definition stepped ::
  "('p, 'o, 'c) gan_trainer \<Rightarrow> ('p, 'o, 'c) gan_trainer \<Rightarrow> ('p, 'o, 'c) event list \<Rightarrow> bool" where
  "stepped t t' evs =
     (\<exists>p g_opt d_opt.
        t' = t\<lparr>g_optimizer := g_opt, d_optimizer := d_opt, gan_model := p,
               gan_trace := gan_trace t @ evs\<rparr>)"

text \<open>
  \<open>unchanged t t'\<close>: between \<open>t\<close> and \<open>t'\<close> the adversarial trainer has written no file
  and has kept its configuration, its file name, its counters and its epoch numbers.
\<close>

definition unchanged :: "('p, 'o, 'c) gan_trainer \<Rightarrow> ('p, 'o, 'c) gan_trainer \<Rightarrow> bool" where
  "unchanged t t' =
     (gan_config t' = gan_config t
      \<and> gan_saved_model_file t' = gan_saved_model_file t
      \<and> gan_cur_step t' = gan_cur_step t
      \<and> gan_best_valid_score t' = gan_best_valid_score t
      \<and> g_pretraining_epochs t' = g_pretraining_epochs t
      \<and> d_pretraining_epochs t' = d_pretraining_epochs t
      \<and> d_sample_training_epochs t' = d_sample_training_epochs t
      \<and> adversarail_training_epochs t' = adversarail_training_epochs t
      \<and> adversarail_d_epochs t' = adversarail_d_epochs t
      \<and> saves (gan_trace t') = saves (gan_trace t))"

text \<open>
  An interleaved model: the discriminator's loss on a batch is the number of the batch,
  the generator's loss too, the critic's loss is 1.
\<close>

definition example_mask_ops :: "(nat, nat, nat) mask_ops" where
  "example_mask_ops =
     \<lparr>calculate_d_train_loss = (\<lambda>p b i. Scalar (Fin (real b))),
      calculate_g_adversarial_loss = (\<lambda>p b j. (Scalar (Fin (real b)), Scalar (Fin 1))),
      mask_step = (\<lambda>m retain_graph p opt. (Suc p, opt)),
      mask_tensor_add = fadd\<rparr>"

definition example_mask_trainer :: "(nat, nat, nat mask_call) gan_trainer" where
  "example_mask_trainer =
     projr (gan_trainer_init (example_config\<lparr>cfg_adversarail_d_epochs := 2\<rparr>) 0 torch_optim
              ''MaskGANGenerator'' ''MaskGANDiscriminator''
              0 (0, 0, 0) (0, 0, 0) ''2020-Nov-14_12-00-00'' [])"



section \<open>Properties of the early-stopping policy and of the optimizer factory\<close>

text \<open>
  Claim C2. The early-stopping policy is a function of its five arguments alone. Its
  fourth result, \<open>improved\<close>, is the comparison in the chosen direction: \<open>new_score\<close>
  greater than \<open>best_score\<close> when bigger is better, smaller otherwise. If it holds, the
  new best is \<open>new_score\<close> and the patience counter is 0; if not, the best is kept and the
  counter is \<open>cur + 1\<close>. The third result, \<open>should_stop\<close>, holds exactly when the updated
  counter has reached \<open>max_step\<close> and \<open>max_step\<close> is positive.
\<close>

theorem early_stopping_policy:
  assumes "early_stopping new_score best_score cur max_step bigger_is_better
             = (updated_best, updated_cur_step, should_stop, improved)"
  shows "(improved \<longleftrightarrow> (if bigger_is_better then fgt new_score best_score
                                            else flt new_score best_score))
       \<and> (if improved then updated_best = new_score \<and> updated_cur_step = 0
          else updated_best = best_score \<and> updated_cur_step = cur + 1)
       \<and> (should_stop \<longleftrightarrow> updated_cur_step \<ge> max_step \<and> max_step > 0)"
  using assms by (auto simp: early_stopping_def Let_def split: if_splits)

theorem early_stopping_policy_witness:
  "early_stopping (Fin 9) (Fin 10) 1 2 False = (Fin 9, 0, False, True)
   \<and> early_stopping (Fin 9) (Fin 9) 1 2 False = (Fin 9, 2, True, False)
   \<and> early_stopping (Fin 9) (Fin 9) 1 0 False = (Fin 9, 2, False, False)"
  using early_stopping_policy [of "Fin 9" "Fin 10" 1 2 False "Fin 9" 0 False True]
  by (simp add: early_stopping_def)

lemma lower_examples:
  "lower ''lbfgs'' = ''lbfgs''" "lower ''adam'' = ''adam''" "lower ''SGD'' = ''sgd''"
  "lower ''AdaGrad'' = ''adagrad''" "lower ''RMSprop'' = ''rmsprop''"
  by code_simp+

text \<open>
  Capitals beyond ASCII: A with diaeresis (196) is lowered to 228 and thorn (222) to 254;
  the multiplication sign (215) and the sharp s (223) are kept.
\<close>

lemma lower_latin1_examples:
  "lower [char_of (196 :: nat)] = [char_of (228 :: nat)]"
  "lower [char_of (215 :: nat)] = [char_of (215 :: nat)]"
  "lower [char_of (222 :: nat)] = [char_of (254 :: nat)]"
  "lower [char_of (223 :: nat)] = [char_of (223 :: nat)]"
  by code_simp+

lemma recognized_kind_examples:
  "recognized_kind ''adam'' = Some Adam" "recognized_kind ''SGD'' = Some SGD"
  "recognized_kind ''AdaGrad'' = Some Adagrad" "recognized_kind ''RMSprop'' = Some RMSprop"
  "recognized_kind ''lbfgs'' = None"
  by (simp_all add: recognized_kind_def lower_examples)



text \<open>
  The scenario of the specification with a learning rate that the constructor accepts:
  the unrecognised learner \<open>lbfgs\<close> gives Adam and one warning.
\<close>

lemma build_optimizer_lbfgs:
  "0 \<le> lr \<Longrightarrow> build_optimizer torch_optim ''lbfgs'' lr st
     = (Inr \<lparr>opt_kind = Adam, opt_lr = lr, opt_state = st\<rparr>, [Warning UnrecognizedOptimizer])"
  by (simp add: build_optimizer_def torch_optim_def lower_examples)

section \<open>Loops, traces and files\<close>

lemma saves_append: "saves (xs @ ys) = saves xs @ saves ys"
  by (induction xs rule: saves.induct) auto

lemma torch_load_snoc_save: "torch_load (tr @ [TorchSave f ck]) f = Some ck"
  by (induction tr) (auto split: option.splits)

lemma torch_load_snoc_log: "torch_load (tr @ [Log x]) f = torch_load tr f"
  by (induction tr) (auto split: option.splits)

lemma torch_load_append_logs: "torch_load (tr @ map Log logs) f = torch_load tr f"
proof (induction logs rule: rev_induct)
  case Nil
  then show ?case by simp
next
  case (snoc x xs)
  from torch_load_snoc_log [of "tr @ map Log xs" x f] snoc show ?case by simp
qed



lemma train_loop_frame:
  "train_loop ops e t tot xs = (t', r) \<Longrightarrow>
     \<exists>m opt evs. t' = t\<lparr>model := m, optimizer := opt, trace := trace t @ evs\<rparr>
        \<and> saves evs = [] \<and> ModelEval \<notin> set evs"
proof (induction xs arbitrary: t tot)
  case Nil
  then have "t' = t\<lparr>model := model t, optimizer := optimizer t, trace := trace t @ []\<rparr>"
    by simp
  then show ?case by fastforce
next
  case (Cons x xs)
  let ?ls = "calculate_loss ops True (model t) x (Some e)"
  let ?t1 = "emit (CalculateLoss (x, ?ls)) t"
  have stop: ?case if "t' = ?t1"
  proof -
    from that have "t' = t\<lparr>model := model t, optimizer := optimizer t,
        trace := trace t @ [CalculateLoss (x, ?ls)]\<rparr>"
      by (simp add: emit_def)
    moreover have "saves [CalculateLoss (x, ?ls)] = []" "ModelEval \<notin> set [CalculateLoss (x, ?ls)]"
      by simp_all
    ultimately show ?thesis by blast
  qed
  show ?case
  proof (cases "accumulate tot ?ls")
    case (Inl a)
    with Cons.prems have "t' = ?t1" by simp
    then show ?thesis by (rule stop)
  next
    case acc: (Inr tot')
    show ?thesis
    proof (cases "check_nan (combined_loss (tensor_add ops) ?ls)")
      case (Inl a)
      with acc Cons.prems have "t' = ?t1" by simp
      then show ?thesis by (rule stop)
    next
      case (Inr u)
      obtain p opt where po: "optimizer_step ops (model t) (optimizer t) x e = (p, opt)"
        by (cases "optimizer_step ops (model t) (optimizer t) x e")
      let ?t2 = "emit OptimizerStep (?t1\<lparr>model := p, optimizer := opt\<rparr>)"
      from Cons.prems acc Inr po
      have "train_loop ops e ?t2 (Some tot') xs = (t', r)"
        by (simp add: emit_def)
      from Cons.IH [OF this] obtain m' opt' evs where
        t': "t' = ?t2\<lparr>model := m', optimizer := opt', trace := trace ?t2 @ evs\<rparr>"
        and evs: "saves evs = []" "ModelEval \<notin> set evs"
        by blast
      from t' have "t' = t\<lparr>model := m', optimizer := opt',
          trace := trace t @ (CalculateLoss (x, ?ls) # OptimizerStep # evs)\<rparr>"
        by (simp add: emit_def)
      moreover from evs have "saves (CalculateLoss (x, ?ls) # OptimizerStep # evs) = []"
        "ModelEval \<notin> set (CalculateLoss (x, ?ls) # OptimizerStep # evs)"
        by simp_all
      ultimately show ?thesis by blast
    qed
  qed
qed

lemma valid_loop_frame:
  "valid_loop ops t tot xs = (t', r) \<Longrightarrow>
     \<exists>evs. t' = t\<lparr>trace := trace t @ evs\<rparr> \<and> saves evs = []"
proof (induction xs arbitrary: t tot)
  case Nil
  then have "t' = t\<lparr>trace := trace t @ []\<rparr>"
    by simp
  then show ?case by fastforce
next
  case (Cons x xs)
  let ?ls = "calculate_loss ops False (model t) x None"
  let ?t1 = "emit (CalculateLoss (x, ?ls)) t"
  have stop: ?case if "t' = ?t1"
  proof -
    from that have "t' = t\<lparr>trace := trace t @ [CalculateLoss (x, ?ls)]\<rparr>"
      by (simp add: emit_def)
    moreover have "saves [CalculateLoss (x, ?ls)] = []"
      by simp
    ultimately show ?thesis by blast
  qed
  show ?case
  proof (cases "accumulate tot ?ls")
    case (Inl a)
    with Cons.prems have "t' = ?t1" by simp
    then show ?thesis by (rule stop)
  next
    case acc: (Inr tot')
    show ?thesis
    proof (cases "check_nan (combined_loss (tensor_add ops) ?ls)")
      case (Inl a)
      with acc Cons.prems have "t' = ?t1" by simp
      then show ?thesis by (rule stop)
    next
      case (Inr u)
      from Cons.prems acc Inr
      have "valid_loop ops ?t1 (Some tot') xs = (t', r)"
        by (simp add: emit_def)
      from Cons.IH [OF this] obtain evs where
        t': "t' = ?t1\<lparr>trace := trace ?t1 @ evs\<rparr>" and evs: "saves evs = []"
        by blast
      from t' have "t' = t\<lparr>trace := trace t @ (CalculateLoss (x, ?ls) # evs)\<rparr>"
        by (simp add: emit_def)
      moreover from evs have "saves (CalculateLoss (x, ?ls) # evs) = []"
        by simp
      ultimately show ?thesis by blast
    qed
  qed
qed

lemmas example_defs = example_ops_def example_trainer_def example_config_def trainer_init_def
  build_optimizer_def torch_optim_def lower_examples path_join_def

lemmas base_defs = fit_def fit_epoch_def fit_epoch_train_def fit_epoch_eval_def train_epoch_def
  valid_epoch_def emit_def log_info_def save_checkpoint_def epoch_mean_def early_stopping_def
  new_events_def Let_def upto.simps

lemma lower_model_names:
  "lower ''RNN'' = ''rnn''" "lower ''GPT2'' = ''gpt2''"
  by code_simp+

lemma train_epoch_frame:
  assumes "train_epoch ops t xs e = (t', r)"
  shows "\<exists>m opt evs. t' = t\<lparr>model := m, optimizer := opt, trace := trace t @ evs\<rparr>
        \<and> saves evs = [] \<and> ModelEval \<notin> set evs"
proof -
  obtain t1 r1 where l: "train_loop ops e (emit ModelTrain t) None xs = (t1, r1)"
    by (cases "train_loop ops e (emit ModelTrain t) None xs")
  with assms have "t' = t1"
    by (auto simp: train_epoch_def split: sum.splits)
  with train_loop_frame [OF l] obtain m opt evs where
    t': "t' = (emit ModelTrain t)\<lparr>model := m, optimizer := opt,
           trace := trace (emit ModelTrain t) @ evs\<rparr>"
    and evs: "saves evs = []" "ModelEval \<notin> set evs"
    by blast
  from t' have "t' = t\<lparr>model := m, optimizer := opt, trace := trace t @ (ModelTrain # evs)\<rparr>"
    by (simp add: emit_def)
  moreover from evs have "saves (ModelTrain # evs) = []" "ModelEval \<notin> set (ModelTrain # evs)"
    by simp_all
  ultimately show ?thesis by blast
qed

lemma valid_epoch_frame:
  assumes "valid_epoch ops t xs = (t', r)"
  shows "\<exists>evs. t' = t\<lparr>trace := trace t @ ModelEval # evs\<rparr> \<and> saves evs = []"
proof -
  obtain t1 r1 where l: "valid_loop ops (emit ModelEval t) None xs = (t1, r1)"
    by (cases "valid_loop ops (emit ModelEval t) None xs")
  with assms have "t' = t1"
    by (auto simp: valid_epoch_def split: sum.splits)
  with valid_loop_frame [OF l] obtain evs where
    t': "t' = (emit ModelEval t)\<lparr>trace := trace (emit ModelEval t) @ evs\<rparr>"
    and evs: "saves evs = []"
    by blast
  from t' have "t' = t\<lparr>trace := trace t @ ModelEval # evs\<rparr>"
    by (simp add: emit_def)
  with evs show ?thesis by blast
qed

lemma fit_epoch_train_frame:
  assumes "fit_epoch_train ops t xs verbose e = (t', Inr u)"
  shows "\<exists>m opt evs l logs. train_epoch ops t xs e
            = (t\<lparr>model := m, optimizer := opt, trace := trace t @ evs\<rparr>, Inr l)
     \<and> saves evs = [] \<and> ModelEval \<notin> set evs
     \<and> t' = t\<lparr>model := m, optimizer := opt,
              train_loss_ppl_dict := (train_loss_ppl_dict t)(e \<mapsto> l),
              trace := trace t @ evs @ TorchSave (saved_model_file t)
                \<lparr>ck_config = config t, ck_epoch = e, ck_cur_step = cur_step t,
                 ck_best_valid_score = best_valid_score t, ck_state_dict = m,
                 ck_optimizer = Some (opt_lr opt, opt_state opt)\<rparr>
                # map Log logs\<rparr>"
proof -
  obtain t1 r1 where te: "train_epoch ops t xs e = (t1, r1)"
    by (cases "train_epoch ops t xs e")
  with assms obtain l where r1: "r1 = Inr l"
    by (cases r1) (auto simp: fit_epoch_train_def)
  from train_epoch_frame [OF te] obtain m opt evs where
    t1: "t1 = t\<lparr>model := m, optimizer := opt, trace := trace t @ evs\<rparr>"
    and ev: "saves evs = []" "ModelEval \<notin> set evs"
    by blast
  from assms te r1 have t': "t' = log_info verbose (TrainLossOutput e)
      (save_checkpoint (t1\<lparr>train_loss_ppl_dict := (train_loss_ppl_dict t1)(e \<mapsto> l)\<rparr>) e)"
    by (cases l) (auto simp: fit_epoch_train_def Let_def)
  have "t' = t\<lparr>model := m, optimizer := opt,
              train_loss_ppl_dict := (train_loss_ppl_dict t)(e \<mapsto> l),
              trace := trace t @ evs @ TorchSave (saved_model_file t)
                \<lparr>ck_config = config t, ck_epoch = e, ck_cur_step = cur_step t,
                 ck_best_valid_score = best_valid_score t, ck_state_dict = m,
                 ck_optimizer = Some (opt_lr opt, opt_state opt)\<rparr>
                # map Log (if verbose then [Info (TrainLossOutput e)] else [])\<rparr>"
    unfolding t' t1 by (simp add: log_info_def save_checkpoint_def emit_def)
  with te r1 t1 ev show ?thesis by blast
qed


text \<open>What the second part of the loop body does when validation is due and succeeds.\<close>

lemma fit_epoch_eval_validated:
  assumes en: "0 < eval_step t" "truthy valid_data" "(e + 1) mod eval_step t = 0"
    and ve: "valid_epoch ops t (batches valid_data) = (t5, Inr (valid_score, valid_result))"
    and es: "early_stopping valid_score (best_valid_score t) (cur_step t) (stopping_step t) False
              = (best, cur, stop_flag, update_flag)"
  shows "\<exists>evs logs.
      fit_epoch_eval ops t valid_data verbose saved e
        = (t\<lparr>best_valid_score := best, cur_step := cur,
              best_valid_result := (if update_flag then Some valid_result
                                    else best_valid_result t),
              trace := trace t @ ModelEval # evs @ map Log logs
                @ (if update_flag \<and> saved then
                     [TorchSave (saved_model_file t)
                        \<lparr>ck_config = config t, ck_epoch = e, ck_cur_step = cur,
                         ck_best_valid_score = best, ck_state_dict = model t,
                         ck_optimizer = Some (opt_lr (optimizer t), opt_state (optimizer t))\<rparr>]
                   else [])
                @ map Log (if update_flag \<and> saved \<and> verbose
                           then [Info (SavingCurrentBest (saved_model_file t))] else [])
                @ map Log (if stop_flag \<and> verbose
                           then [Info (FinishedTraining (e - cur * eval_step t))] else [])\<rparr>,
           Inr (if stop_flag then Break else Next))
    \<and> saves evs = []"
proof -
  from valid_epoch_frame [OF ve] obtain evs where
    t5: "t5 = t\<lparr>trace := trace t @ ModelEval # evs\<rparr>" and ev: "saves evs = []"
    by blast
  note defs = fit_epoch_eval_def Let_def log_info_def save_checkpoint_def emit_def
  have "fit_epoch_eval ops t valid_data verbose saved e
        = (t\<lparr>best_valid_score := best, cur_step := cur,
              best_valid_result := (if update_flag then Some valid_result
                                    else best_valid_result t),
              trace := trace t @ ModelEval # evs
                @ map Log (if verbose then [Info (ValidScoreOutput e), Info ValidResultOutput] else [])
                @ (if update_flag \<and> saved then
                     [TorchSave (saved_model_file t)
                        \<lparr>ck_config = config t, ck_epoch = e, ck_cur_step = cur,
                         ck_best_valid_score = best, ck_state_dict = model t,
                         ck_optimizer = Some (opt_lr (optimizer t), opt_state (optimizer t))\<rparr>]
                   else [])
                @ map Log (if update_flag \<and> saved \<and> verbose
                           then [Info (SavingCurrentBest (saved_model_file t))] else [])
                @ map Log (if stop_flag \<and> verbose
                           then [Info (FinishedTraining (e - cur * eval_step t))] else [])\<rparr>,
           Inr (if stop_flag then Break else Next))"
    using en ve es unfolding t5 by (simp add: defs)
  with ev show ?thesis by blast
qed


lemma saves_logs: "saves (map Log logs) = []"
  by (induction logs) auto

lemma model_eval_logs: "ModelEval \<notin> set (map Log logs)"
  by auto

section \<open>Validation and early stopping in the base trainer\<close>

text \<open>
  Claim C3, as the code has it. Let the training part of epoch \<open>e\<close> have succeeded,
  leaving state \<open>t\<close>, and let validation be enabled (positive \<open>eval_step\<close>, validation data
  that is not empty). Then:
  \<^item> the model is switched to evaluation mode, that is a validation epoch runs, exactly
    when \<open>(e + 1) mod eval_step = 0\<close>;
  \<^item> when it runs and succeeds, the best score and the patience counter become what the
    early-stopping policy returns for \<open>bigger = False\<close>;
  \<^item> if the policy reports an improvement, the best result is overwritten, and a checkpoint
    with the new best score is written if and only if \<open>saved\<close> holds;
  \<^item> if the policy says stop, the loop ends in this state whatever epochs \<open>es\<close> remain.
\<close>

theorem validation_schedule_and_early_stop:
  assumes tr: "fit_epoch_train ops t0 train_data verbose e = (t, Inr ())"
    and en: "0 < eval_step t0" "truthy valid_data"
  shows
   "(ModelEval \<in> set (new_events t0 (fst (fit_epoch ops t0 train_data valid_data verbose saved e)))
       \<longleftrightarrow> (e + 1) mod eval_step t0 = 0)
  \<and> ((e + 1) mod eval_step t0 = 0
      \<and> valid_epoch ops t (batches valid_data) = (t5, Inr (valid_score, valid_result))
      \<and> early_stopping valid_score (best_valid_score t0) (cur_step t0) (stopping_step t0) False
           = (best, cur, stop_flag, update_flag)
     \<longrightarrow> (\<exists>t'. fit_epoch ops t0 train_data valid_data verbose saved e
                  = (t', Inr (if stop_flag then Break else Next))
           \<and> best_valid_score t' = best \<and> cur_step t' = cur
           \<and> (update_flag \<longrightarrow> best_valid_result t' = Some valid_result)
           \<and> saves (new_events t t')
               = (if update_flag \<and> saved then
                    [(saved_model_file t0,
                      \<lparr>ck_config = config t0, ck_epoch = e, ck_cur_step = cur,
                       ck_best_valid_score = best, ck_state_dict = model t,
                       ck_optimizer = Some (opt_lr (optimizer t), opt_state (optimizer t))\<rparr>)]
                  else [])
           \<and> (stop_flag \<longrightarrow> fit_loop ops t0 train_data valid_data verbose saved (e # es)
                               = (t', Inr ()))))"
proof -
  from fit_epoch_train_frame [OF tr] obtain m opt evs l logs where
    t: "t = t0\<lparr>model := m, optimizer := opt,
              train_loss_ppl_dict := (train_loss_ppl_dict t0)(e \<mapsto> l),
              trace := trace t0 @ evs @ TorchSave (saved_model_file t0)
                \<lparr>ck_config = config t0, ck_epoch = e, ck_cur_step = cur_step t0,
                 ck_best_valid_score = best_valid_score t0, ck_state_dict = m,
                 ck_optimizer = Some (opt_lr opt, opt_state opt)\<rparr>
                # map Log logs\<rparr>"
    and ev: "saves evs = []" "ModelEval \<notin> set evs"
    by blast
  have f: "config t = config t0" "cur_step t = cur_step t0"
    "best_valid_score t = best_valid_score t0" "saved_model_file t = saved_model_file t0"
    "stopping_step t = stopping_step t0" "eval_step t = eval_step t0"
    by (simp_all add: t)
  have fe: "fit_epoch ops t0 train_data valid_data verbose saved e
              = fit_epoch_eval ops t valid_data verbose saved e"
    using tr by (simp add: fit_epoch_def)
  have part1: "ModelEval \<in> set (new_events t0 (fst (fit_epoch ops t0 train_data valid_data verbose saved e)))
       \<longleftrightarrow> (e + 1) mod eval_step t0 = 0"
  proof (cases "(e + 1) mod eval_step t0 = 0")
    case True
    obtain t5' r5 where ve: "valid_epoch ops t (batches valid_data) = (t5', r5)"
      by (cases "valid_epoch ops t (batches valid_data)")
    from valid_epoch_frame [OF ve] obtain evs' where
      t5': "t5' = t\<lparr>trace := trace t @ ModelEval # evs'\<rparr>" by blast
    have "ModelEval \<in> set (new_events t0 (fst (fit_epoch_eval ops t valid_data verbose saved e)))"
    proof (cases r5)
      case (Inl err)
      with en True ve f have "fit_epoch_eval ops t valid_data verbose saved e = (t5', Inl err)"
        by (simp add: fit_epoch_eval_def)
      then show ?thesis
        by (simp add: t5' new_events_def t)
    next
      case (Inr res)
      obtain vs vr where res: "res = (vs, vr)" by (cases res)
      obtain b c sf uf where
        es: "early_stopping vs (best_valid_score t) (cur_step t) (stopping_step t) False
              = (b, c, sf, uf)"
        by (cases "early_stopping vs (best_valid_score t) (cur_step t) (stopping_step t) False")
      from en True f have en': "0 < eval_step t" "truthy valid_data" "(e + 1) mod eval_step t = 0"
        by simp_all
      from fit_epoch_eval_validated [OF en' ve [unfolded Inr res] es, of verbose saved]
      show ?thesis
        by (auto simp: new_events_def t)
    qed
    with True show ?thesis by (simp add: fe)
  next
    case False
    with en f have "fit_epoch_eval ops t valid_data verbose saved e = (t, Inr Next)"
      by (simp add: fit_epoch_eval_def)
    with False ev show ?thesis
      by (auto simp: fe new_events_def t)
  qed
  have part2: "\<exists>t'. fit_epoch ops t0 train_data valid_data verbose saved e
                  = (t', Inr (if stop_flag then Break else Next))
           \<and> best_valid_score t' = best \<and> cur_step t' = cur
           \<and> (update_flag \<longrightarrow> best_valid_result t' = Some valid_result)
           \<and> saves (new_events t t')
               = (if update_flag \<and> saved then
                    [(saved_model_file t0,
                      \<lparr>ck_config = config t0, ck_epoch = e, ck_cur_step = cur,
                       ck_best_valid_score = best, ck_state_dict = model t,
                       ck_optimizer = Some (opt_lr (optimizer t), opt_state (optimizer t))\<rparr>)]
                  else [])
           \<and> (stop_flag \<longrightarrow> fit_loop ops t0 train_data valid_data verbose saved (e # es)
                               = (t', Inr ()))"
    if due: "(e + 1) mod eval_step t0 = 0"
      and ve: "valid_epoch ops t (batches valid_data) = (t5, Inr (valid_score, valid_result))"
      and es: "early_stopping valid_score (best_valid_score t0) (cur_step t0) (stopping_step t0) False
           = (best, cur, stop_flag, update_flag)"
  proof -
    from en due f have en': "0 < eval_step t" "truthy valid_data" "(e + 1) mod eval_step t = 0"
      by simp_all
    from es f have es': "early_stopping valid_score (best_valid_score t) (cur_step t)
        (stopping_step t) False = (best, cur, stop_flag, update_flag)"
      by simp
    from fit_epoch_eval_validated [OF en' ve es', of verbose saved]
    obtain evs' logs' t' where
      r: "fit_epoch_eval ops t valid_data verbose saved e
            = (t', Inr (if stop_flag then Break else Next))"
      and t': "t' = t\<lparr>best_valid_score := best, cur_step := cur,
              best_valid_result := (if update_flag then Some valid_result
                                    else best_valid_result t),
              trace := trace t @ ModelEval # evs' @ map Log logs'
                @ (if update_flag \<and> saved then
                     [TorchSave (saved_model_file t)
                        \<lparr>ck_config = config t, ck_epoch = e, ck_cur_step = cur,
                         ck_best_valid_score = best, ck_state_dict = model t,
                         ck_optimizer = Some (opt_lr (optimizer t), opt_state (optimizer t))\<rparr>]
                   else [])
                @ map Log (if update_flag \<and> saved \<and> verbose
                           then [Info (SavingCurrentBest (saved_model_file t))] else [])
                @ map Log (if stop_flag \<and> verbose
                           then [Info (FinishedTraining (e - cur * eval_step t))] else [])\<rparr>"
      and ev': "saves evs' = []"
      by blast
    have b: "best_valid_score t' = best" "cur_step t' = cur"
      "update_flag \<longrightarrow> best_valid_result t' = Some valid_result"
      by (simp_all add: t')
    have s: "saves (new_events t t')
               = (if update_flag \<and> saved then
                    [(saved_model_file t0,
                      \<lparr>ck_config = config t0, ck_epoch = e, ck_cur_step = cur,
                       ck_best_valid_score = best, ck_state_dict = model t,
                       ck_optimizer = Some (opt_lr (optimizer t), opt_state (optimizer t))\<rparr>)]
                  else [])"
      using ev' by (simp add: t' new_events_def saves_append saves_logs f)
    have l: "stop_flag \<longrightarrow> fit_loop ops t0 train_data valid_data verbose saved (e # es)
                               = (t', Inr ())"
      using r by (simp add: fe)
    from r b s l show ?thesis
      by (simp add: fe)
  qed
  show ?thesis
    apply (intro conjI impI)
     apply (rule part1)
    apply (elim conjE)
    apply (rule part2; assumption)
    done
qed

theorem validation_schedule_and_early_stop_witness:
  "ModelEval \<in> set (new_events example_trainer
       (fst (fit_epoch (example_ops Scalar) example_trainer [Fin 1] (Some [Fin 1]) False True 0)))
   \<and> map (\<lambda>(f, ck). (ck_epoch ck, ck_best_valid_score ck))
        (saves (trace
           (fst (fit_epoch (example_ops Scalar) example_trainer [Fin 1] (Some [Fin 1]) False True 0))))
       = [(0, Fin 100000000), (0, Fin 1)]
   \<and> fit_loop (example_ops Scalar) (example_trainer\<lparr>best_valid_score := Fin 0, cur_step := 1\<rparr>)
        [Fin 1] (Some [Fin 1]) False True [0, 1]
       = (fst (fit_epoch (example_ops Scalar) (example_trainer\<lparr>best_valid_score := Fin 0, cur_step := 1\<rparr>)
                 [Fin 1] (Some [Fin 1]) False True 0), Inr ())
   \<and> length (filter (\<lambda>ev. ev = ModelTrain)
        (trace (fst (fit_loop (example_ops Scalar)
           (example_trainer\<lparr>best_valid_score := Fin 0, cur_step := 1\<rparr>)
           [Fin 1] (Some [Fin 1]) False True [0, 1])))) = 1"
  using validation_schedule_and_early_stop
    [of "example_ops Scalar" example_trainer "[Fin 1]" False 0
        "fst (fit_epoch_train (example_ops Scalar) example_trainer [Fin 1] False 0)"
        "Some [Fin 1]" True
        "fst (valid_epoch (example_ops Scalar)
               (fst (fit_epoch_train (example_ops Scalar) example_trainer [Fin 1] False 0)) [Fin 1])"
        "Fin 1" "Fin (exp 1)" "Fin 1" 0 False True "[1]"]
    validation_schedule_and_early_stop
    [of "example_ops Scalar" "example_trainer\<lparr>best_valid_score := Fin 0, cur_step := 1\<rparr>"
        "[Fin 1]" False 0
        "fst (fit_epoch_train (example_ops Scalar)
               (example_trainer\<lparr>best_valid_score := Fin 0, cur_step := 1\<rparr>) [Fin 1] False 0)"
        "Some [Fin 1]" True
        "fst (valid_epoch (example_ops Scalar)
               (fst (fit_epoch_train (example_ops Scalar)
                  (example_trainer\<lparr>best_valid_score := Fin 0, cur_step := 1\<rparr>) [Fin 1] False 0))
               [Fin 1])"
        "Fin 1" "Fin (exp 1)" "Fin 0" 2 True False "[1]"]
  by (simp add: example_defs base_defs)

text \<open>
  Claim C3 as stated has a best checkpoint saved at every improvement. With
  \<open>saved = False\<close> the policy reports an improvement (the best score becomes 1, the best
  result is stored), and the only checkpoint written in the epoch is the one after
  training, which still holds the initial best score.
\<close>

theorem improvement_without_best_checkpoint:
  "early_stopping (Fin 1) (Fin 100000000) 0 2 False = (Fin 1, 0, False, True)
   \<and> snd (fit_epoch (example_ops Scalar) example_trainer [Fin 1] (Some [Fin 1]) False False 0)
       = Inr Next
   \<and> best_valid_score
        (fst (fit_epoch (example_ops Scalar) example_trainer [Fin 1] (Some [Fin 1]) False False 0))
       = Fin 1
   \<and> best_valid_result
        (fst (fit_epoch (example_ops Scalar) example_trainer [Fin 1] (Some [Fin 1]) False False 0))
       = Some (Fin (exp 1))
   \<and> map (\<lambda>(f, ck). (ck_epoch ck, ck_best_valid_score ck))
        (saves (trace
           (fst (fit_epoch (example_ops Scalar) example_trainer [Fin 1] (Some [Fin 1]) False False 0))))
       = [(0, Fin 100000000)]"
  by (simp add: example_defs base_defs)

section \<open>The checkpoint after every training epoch\<close>




section \<open>Tuple-valued losses\<close>

lemma train_epoch_tuple_total:
  assumes "train_loop ops e (emit ModelTrain t) None xs = (t1, Inr (Some (Tuple ts)))"
  shows "train_epoch ops t xs e = (t1, Inl TypeError)"
  using assms by (simp add: train_epoch_def epoch_mean_def)

text \<open>
  Claim C5 fails on the code. With the step losses \<open>(1, 2)\<close> and \<open>(2, 4)\<close> the running
  total of \<^verbatim>\<open>Trainer._train_epoch\<close> is the element-wise sum \<open>(3, 6)\<close>, but the epoch then
  raises \<^verbatim>\<open>TypeError\<close> at \<^verbatim>\<open>total_loss / len(train_data)\<close>: no epoch mean is recorded. The
  division of \<^verbatim>\<open>GANTrainer._g_train_epoch\<close> does give the element-wise mean of that total.
\<close>

theorem tuple_loss_epoch_raises:
  "snd (train_loop (example_ops (\<lambda>b. Tuple [b, fadd b b])) 0 (emit ModelTrain example_trainer) None
          [Fin 1, Fin 2])
     = Inr (Some (Tuple [Fin 3, Fin 6]))
   \<and> snd (train_epoch (example_ops (\<lambda>b. Tuple [b, fadd b b])) example_trainer [Fin 1, Fin 2] 0)
     = Inl TypeError
   \<and> g_epoch_mean (Some (Tuple [Fin 3, Fin 6])) 2 = Inr (Tuple [Fin (3 / 2), Fin 3])"
  by (simp add: example_defs base_defs)

section \<open>Checkpoints\<close>

text \<open>
  Claim C6, as the code has it. A checkpoint written by the base trainer holds the
  configuration, the epoch, \<open>cur_step\<close>, \<open>best_valid_score\<close>, the parameters of the model
  and the state of the one optimizer. A checkpoint written by an adversarial trainer holds
  the same without any optimizer state. Both go to the file whose name the constructor
  made from the checkpoint directory, the name of the model and the time of construction.
\<close>

theorem checkpoint_contents:
  "saves (trace (save_checkpoint t e))
     = saves (trace t)
       @ [(saved_model_file t,
           \<lparr>ck_config = config t, ck_epoch = e, ck_cur_step = cur_step t,
            ck_best_valid_score = best_valid_score t, ck_state_dict = model t,
            ck_optimizer = Some (opt_lr (optimizer t), opt_state (optimizer t))\<rparr>)]
   \<and> saves (gan_trace (gan_save_checkpoint g e))
     = saves (gan_trace g)
       @ [(gan_saved_model_file g,
           \<lparr>ck_config = gan_config g, ck_epoch = e, ck_cur_step = gan_cur_step g,
            ck_best_valid_score = gan_best_valid_score g, ck_state_dict = gan_model g,
            ck_optimizer = None\<rparr>)]
   \<and> (trainer_init cfg m new ost now tr = Inr t0
        \<longrightarrow> saved_model_file t0
            = path_join (cfg_checkpoint_dir cfg) (cfg_model cfg @ ''-'' @ now @ ''.pth''))
   \<and> (gan_trainer_init cfg m new gname dname ost gst dst now tr' = Inr g0
        \<longrightarrow> gan_saved_model_file g0
            = path_join (cfg_checkpoint_dir cfg) (cfg_model cfg @ ''-'' @ now @ ''.pth''))"
  by (auto simp: save_checkpoint_def gan_save_checkpoint_def emit_def gan_emit_def saves_append
      trainer_init_def gan_trainer_init_def Let_def split: prod.splits sum.splits)

theorem checkpoint_contents_witness:
  "trainer_init example_config 0 torch_optim 0 ''2020-Nov-14_12-00-00'' []
     = Inr (example_trainer :: (nat, nat, nat) trainer)
   \<and> saved_model_file (example_trainer :: (nat, nat, nat) trainer)
       = ''saved/RNN-2020-Nov-14_12-00-00.pth''
   \<and> gan_trainer_init example_config 0 torch_optim ''SeqGANGenerator'' ''SeqGANDiscriminator''
         0 (0, 0, 0) (0, 0, 0) ''2020-Nov-14_12-00-00'' []
     = Inr (example_gan_trainer :: (nat, nat, unit) gan_trainer)
   \<and> gan_saved_model_file (example_gan_trainer :: (nat, nat, unit) gan_trainer)
       = ''saved/RNN-2020-Nov-14_12-00-00.pth''
   \<and> map (\<lambda>(f, ck). (f, ck_epoch ck, ck_state_dict ck, ck_optimizer ck))
         (saves (trace (save_checkpoint (example_trainer :: (nat, nat, nat) trainer) 3)))
       = [(''saved/RNN-2020-Nov-14_12-00-00.pth'', 3, 0, Some (1 / 1000, 0))]"
  using checkpoint_contents
    [of "example_trainer :: (nat, nat, nat) trainer" 3
        "example_gan_trainer :: (nat, nat, unit) gan_trainer" example_config 0 torch_optim 0
        "''2020-Nov-14_12-00-00''" "[]" "example_trainer :: (nat, nat, nat) trainer"
        "''SeqGANGenerator''" "''SeqGANDiscriminator''" "(0, 0, 0)" "(0, 0, 0)" "[]"
        "example_gan_trainer :: (nat, nat, unit) gan_trainer"]
  by (simp add: example_defs example_gan_trainer_def gan_trainer_init_def
      build_module_optimizer_def save_checkpoint_def emit_def)

text \<open>
  Claim C6 as stated has every checkpoint contain all optimizer states. The checkpoint of
  an adversarial trainer, which has two optimizers, contains none.
\<close>

theorem gan_checkpoint_without_optimizer:
  "map (\<lambda>(f, ck). (f, ck_epoch ck, ck_state_dict ck, ck_optimizer ck))
     (saves (gan_trace (gan_save_checkpoint
        (example_gan_trainer :: (nat, nat, unit) gan_trainer) 1)))
     = [(''saved/RNN-2020-Nov-14_12-00-00.pth'', 1, 0, None)]"
  by (simp add: example_gan_trainer_def gan_trainer_init_def example_config_def
      build_optimizer_def build_module_optimizer_def torch_optim_def lower_examples path_join_def
      gan_save_checkpoint_def gan_emit_def)

text \<open>
  The round trip of the base trainer. Let a base trainer \<open>t\<close> save a checkpoint for epoch
  \<open>e\<close>, and let a trainer \<open>t'\<close> be constructed afterwards whose model and optimizer
  accept the saved state. Then \<open>resume_checkpoint\<close> on the saved file succeeds; training
  resumes at epoch \<open>e + 1\<close>; \<open>cur_step\<close>, \<open>best_valid_score\<close>, the parameters of the model
  and the optimizer state are those of \<open>t\<close>; and the warning about the architecture is
  logged exactly when the two model names differ after \<open>lower()\<close>, without stopping the
  restoration.
\<close>

lemma checkpoint_round_trip:
  assumes init: "trainer_init cfg' m' new ost' now' (trace (save_checkpoint t e)) = Inr t'"
    and "state_dict_fits ops m' (model t)"
    and "optimizer_fits ops (optimizer t') (opt_lr (optimizer t), opt_state (optimizer t))"
  shows "\<exists>t''. resume_checkpoint ops t' (saved_model_file t) = (t'', Inr ())
      \<and> start_epoch t'' = e + 1
      \<and> cur_step t'' = cur_step t
      \<and> best_valid_score t'' = best_valid_score t
      \<and> model t'' = model t
      \<and> opt_state (optimizer t'') = opt_state (optimizer t)
      \<and> opt_lr (optimizer t'') = opt_lr (optimizer t)
      \<and> (Log (Warning ArchitectureDiffers) \<in> set (new_events t' t'')
          \<longleftrightarrow> lower (cfg_model (config t)) \<noteq> lower (cfg_model cfg'))"
proof -
  from init obtain opt logs where bo:
    "build_optimizer new (cfg_learner cfg') (cfg_learning_rate cfg') ost' = (Inr opt, logs)"
    by (auto simp: trainer_init_def split: prod.splits sum.splits)
  let ?ck = "\<lparr>ck_config = config t, ck_epoch = e, ck_cur_step = cur_step t,
            ck_best_valid_score = best_valid_score t, ck_state_dict = model t,
            ck_optimizer = Some (opt_lr (optimizer t), opt_state (optimizer t))\<rparr>"
  have tr: "trace t' = (trace t @ [TorchSave (saved_model_file t) ?ck]) @ map Log logs"
    using bo init by (auto simp: trainer_init_def save_checkpoint_def emit_def)
  have ld: "torch_load (trace t') (saved_model_file t) = Some ?ck"
    unfolding tr by (simp only: torch_load_append_logs torch_load_snoc_save)
  have f: "model t' = m'" "config t' = cfg'"
    using bo init by (auto simp: trainer_init_def)
  show ?thesis
    using ld f assms(2,3)
    by (auto simp: resume_checkpoint_def Let_def emit_def new_events_def)
qed

lemma checkpoint_round_trip_example:
  "snd (resume_checkpoint (example_ops Scalar)
     (projr (trainer_init (example_config\<lparr>cfg_model := ''GPT2''\<rparr>) 7 torch_optim 0
        ''2020-Nov-15_08-30-00''
        (trace (save_checkpoint
           (example_trainer\<lparr>cur_step := 1, best_valid_score := Fin 3, model := 5\<rparr>) 4))))
     ''saved/RNN-2020-Nov-14_12-00-00.pth'') = Inr ()
   \<and> (\<lambda>t. (start_epoch t, cur_step t, best_valid_score t, model t, opt_state (optimizer t),
            [ev \<leftarrow> trace t. \<exists>l. ev = Log l]))
       (fst (resume_checkpoint (example_ops Scalar)
          (projr (trainer_init (example_config\<lparr>cfg_model := ''GPT2''\<rparr>) 7 torch_optim 0
             ''2020-Nov-15_08-30-00''
             (trace (save_checkpoint
                (example_trainer\<lparr>cur_step := 1, best_valid_score := Fin 3, model := 5\<rparr>) 4))))
          ''saved/RNN-2020-Nov-14_12-00-00.pth''))
     = (5, 1, Fin 3, 5, 0, [Log (Warning ArchitectureDiffers), Log (Info (CheckpointLoaded 5))])"
  by (simp add: example_defs resume_checkpoint_def save_checkpoint_def emit_def Let_def
      lower_model_names new_events_def)

text \<open>
  The round trip of an adversarial trainer: the inherited \<open>resume_checkpoint\<close> assigns
  the counters and the parameters of its own checkpoint, then raises, whatever the
  trainer \<open>t'\<close> that loads the checkpoint of \<open>t\<close>.
\<close>

lemma gan_checkpoint_round_trip:
  assumes "fits (gan_model t') (gan_model t)"
    and "gan_trace t' = gan_trace (gan_save_checkpoint t e) @ map Log logs"
  shows "\<exists>t''. gan_resume_checkpoint fits t' (gan_saved_model_file t) = (t'', Inl AttributeError)
      \<and> gan_start_epoch t'' = e + 1
      \<and> gan_cur_step t'' = gan_cur_step t
      \<and> gan_best_valid_score t'' = gan_best_valid_score t
      \<and> gan_model t'' = gan_model t"
proof -
  let ?ck = "\<lparr>ck_config = gan_config t, ck_epoch = e, ck_cur_step = gan_cur_step t,
            ck_best_valid_score = gan_best_valid_score t, ck_state_dict = gan_model t,
            ck_optimizer = None\<rparr>"
  have tr: "gan_trace t' = (gan_trace t @ [TorchSave (gan_saved_model_file t) ?ck]) @ map Log logs"
    unfolding assms(2) by (simp add: gan_save_checkpoint_def gan_emit_def)
  have "torch_load (gan_trace t') (gan_saved_model_file t) = Some ?ck"
    unfolding tr by (simp only: torch_load_append_logs torch_load_snoc_save)
  with assms(1) show ?thesis
    by (auto simp: gan_resume_checkpoint_def Let_def gan_emit_def)
qed

lemma gan_resume_never_returns:
  "snd (gan_resume_checkpoint fits t resume_file) \<noteq> Inr ()"
  by (simp add: gan_resume_checkpoint_def Let_def split: option.splits)

text \<open>
  Claim C7 fails on the code for the adversarial trainers. An adversarial trainer with
  \<open>cur_step = 1\<close>, best score 3 and parameters 5 saves its checkpoint for epoch 4; a
  trainer of the same class is then constructed and \<open>resume_checkpoint\<close> is called on
  the file. The call assigns the start epoch 5, the counters and the parameters, and
  then raises \<open>AttributeError\<close> at \<^verbatim>\<open>self.optimizer.load_state_dict\<close>, because
  \<^verbatim>\<open>GANTrainer.__init__\<close> has set \<^verbatim>\<open>self.optimizer\<close> to \<^verbatim>\<open>None\<close>: the restoration does not
  proceed to its end, and \<^verbatim>\<open>Checkpoint loaded\<close> is never logged.
\<close>

theorem adversarial_resume_raises:
  "snd (gan_resume_checkpoint (\<lambda>p sd. True)
     (projr (gan_trainer_init example_config 7 torch_optim
        ''SeqGANGenerator'' ''SeqGANDiscriminator'' 0 (0, 0, 0) (0, 0, 0)
        ''2020-Nov-15_08-30-00''
        (gan_trace (gan_save_checkpoint
           ((example_gan_trainer :: (nat, nat, unit) gan_trainer)
              \<lparr>gan_cur_step := 1, gan_best_valid_score := Fin 3, gan_model := 5\<rparr>) 4))))
     ''saved/RNN-2020-Nov-14_12-00-00.pth'') = Inl AttributeError
   \<and> (\<lambda>t. (gan_start_epoch t, gan_cur_step t, gan_best_valid_score t, gan_model t,
            [ev \<leftarrow> gan_trace t. \<exists>l. ev = Log l]))
       (fst (gan_resume_checkpoint (\<lambda>p sd. True)
          (projr (gan_trainer_init example_config 7 torch_optim
             ''SeqGANGenerator'' ''SeqGANDiscriminator'' 0 (0, 0, 0) (0, 0, 0)
             ''2020-Nov-15_08-30-00''
             (gan_trace (gan_save_checkpoint
                ((example_gan_trainer :: (nat, nat, unit) gan_trainer)
                   \<lparr>gan_cur_step := 1, gan_best_valid_score := Fin 3, gan_model := 5\<rparr>) 4))))
          ''saved/RNN-2020-Nov-14_12-00-00.pth''))
     = (5, 1, Fin 3, 5, [])"
  by (simp add: example_gan_trainer_def gan_trainer_init_def example_config_def
      build_optimizer_def build_module_optimizer_def torch_optim_def lower_examples path_join_def
      gan_resume_checkpoint_def gan_save_checkpoint_def gan_emit_def Let_def lower_model_names)

section \<open>Steps of the adversarial trainers\<close>

lemma stepped_refl: "stepped t t []"
proof -
  have "t = t\<lparr>g_optimizer := g_optimizer t, d_optimizer := d_optimizer t, gan_model := gan_model t,
               gan_trace := gan_trace t @ []\<rparr>"
    by simp
  then show ?thesis
    unfolding stepped_def by blast
qed

lemma stepped_trans:
  assumes "stepped t t1 evs1" and "stepped t1 t2 evs2"
  shows "stepped t t2 (evs1 @ evs2)"
proof -
  from assms(1) obtain p g_opt d_opt where
    t1: "t1 = t\<lparr>g_optimizer := g_opt, d_optimizer := d_opt, gan_model := p,
               gan_trace := gan_trace t @ evs1\<rparr>"
    unfolding stepped_def by blast
  from assms(2) obtain p' g_opt' d_opt' where
    t2: "t2 = t1\<lparr>g_optimizer := g_opt', d_optimizer := d_opt', gan_model := p',
               gan_trace := gan_trace t1 @ evs2\<rparr>"
    unfolding stepped_def by blast
  have "t2 = t\<lparr>g_optimizer := g_opt', d_optimizer := d_opt', gan_model := p',
               gan_trace := gan_trace t @ evs1 @ evs2\<rparr>"
    unfolding t2 t1 by simp
  then show ?thesis
    unfolding stepped_def by blast
qed

lemma stepped_emit: "stepped t (gan_emit ev t) [ev]"
proof -
  have "gan_emit ev t = t\<lparr>g_optimizer := g_optimizer t, d_optimizer := d_optimizer t,
      gan_model := gan_model t, gan_trace := gan_trace t @ [ev]\<rparr>"
    by (simp add: gan_emit_def)
  then show ?thesis
    unfolding stepped_def by blast
qed

lemma stepped_apply_step: "stepped t (apply_step step m t) [OptimizerStep]"
proof -
  obtain p opt where s: "step (gan_model t) (optimizer_of m t) = (p, opt)"
    by (cases "step (gan_model t) (optimizer_of m t)")
  have "apply_step step m t = t\<lparr>g_optimizer := (case m of Generator \<Rightarrow> opt | Discriminator \<Rightarrow> g_optimizer t),
      d_optimizer := (case m of Generator \<Rightarrow> d_optimizer t | Discriminator \<Rightarrow> opt),
      gan_model := p, gan_trace := gan_trace t @ [OptimizerStep]\<rparr>"
    using s by (cases m) (simp_all add: apply_step_def gan_emit_def)
  then show ?thesis
    unfolding stepped_def by blast
qed

lemma stepped_fields:
  assumes "stepped t t' evs"
  shows "adversarail_d_epochs t' = adversarail_d_epochs t" "gan_trace t' = gan_trace t @ evs"
  using assms unfolding stepped_def by auto

lemma unchanged_refl: "unchanged t t"
  by (simp add: unchanged_def)

lemma unchanged_trans: "unchanged t t1 \<Longrightarrow> unchanged t1 t2 \<Longrightarrow> unchanged t t2"
  by (simp add: unchanged_def)

lemma stepped_unchanged:
  assumes "stepped t t' evs" and "saves evs = []"
  shows "unchanged t t' \<and> train_loss_dict t' = train_loss_dict t"
  using assms unfolding stepped_def unchanged_def by (auto simp: saves_append)

lemma unchanged_emit:
  "saves [ev] = [] \<Longrightarrow> unchanged t (gan_emit ev t) \<and> train_loss_dict (gan_emit ev t) = train_loss_dict t"
  by (simp add: unchanged_def gan_emit_def saves_append)

lemma unchanged_log:
  "unchanged t (gan_log_info verbose msg t)
   \<and> train_loss_dict (gan_log_info verbose msg t) = train_loss_dict t"
  by (simp add: unchanged_def gan_log_info_def gan_emit_def saves_append)

lemma unchanged_apply_step:
  "unchanged t (apply_step step m t) \<and> train_loss_dict (apply_step step m t) = train_loss_dict t"
  by (rule stepped_unchanged [OF stepped_apply_step]) simp

lemma optimize_step_unchanged:
  assumes "optimize_step ops t call ls tot m = (t', r)"
  shows "unchanged t t' \<and> train_loss_dict t' = train_loss_dict t"
proof -
  from assms have "t' = t \<or> t' = apply_step (\<lambda>p opt. gan_step ops m p opt call) m t"
    by (auto simp: optimize_step_def optimize_multi_step_def
        split: sum.splits if_splits prod.splits module_optimizer.splits losses.splits)
  then show ?thesis
    using unchanged_apply_step [of t "\<lambda>p opt. gan_step ops m p opt call" m]
    by (auto simp: unchanged_refl)
qed


lemma kept_trans:
  assumes "unchanged t t1 \<and> train_loss_dict t1 = train_loss_dict t"
    and "unchanged t1 t2 \<and> train_loss_dict t2 = train_loss_dict t1"
  shows "unchanged t t2 \<and> train_loss_dict t2 = train_loss_dict t"
  using assms by (auto intro: unchanged_trans)

lemma g_train_loop_unchanged:
  "g_train_loop ops e t tot xs = (t', r)
     \<Longrightarrow> unchanged t t' \<and> train_loss_dict t' = train_loss_dict t"
proof (induction xs arbitrary: t tot)
  case Nil
  then show ?case by (simp add: unchanged_refl)
next
  case (Cons x xs)
  let ?call = "GTrainLoss x e"
  let ?ls = "gan_loss ops (gan_model t) ?call"
  let ?t1 = "gan_emit (CalculateLoss (?call, ?ls)) t"
  obtain t2 r2 where os: "optimize_step ops ?t1 ?call ?ls tot Generator = (t2, r2)"
    by (cases "optimize_step ops ?t1 ?call ?ls tot Generator")
  have k2: "unchanged t t2 \<and> train_loss_dict t2 = train_loss_dict t"
    by (rule kept_trans [OF unchanged_emit optimize_step_unchanged [OF os]]) simp
  show ?case
  proof (cases r2)
    case (Inl err)
    with Cons.prems os have "t' = t2" by (simp add: Let_def)
    with k2 show ?thesis by simp
  next
    case (Inr tot')
    with Cons.prems os have "g_train_loop ops e t2 (Some tot') xs = (t', r)"
      by (simp add: Let_def)
    from kept_trans [OF k2 Cons.IH [OF this]] show ?thesis .
  qed
qed

lemma g_train_epoch_unchanged:
  assumes "g_train_epoch ops t xs e = (t', r)"
  shows "unchanged t t' \<and> train_loss_dict t' = train_loss_dict t"
proof -
  obtain t1 r1 where l: "g_train_loop ops e (gan_emit ModelTrain t) None xs = (t1, r1)"
    by (cases "g_train_loop ops e (gan_emit ModelTrain t) None xs")
  with assms have "t' = t1"
    by (auto simp: g_train_epoch_def split: sum.splits)
  with kept_trans [OF unchanged_emit g_train_loop_unchanged [OF l]] show ?thesis
    by simp
qed

lemma d_batch_loop_unchanged:
  "d_batch_loop ops e t tot xs = (t', r)
     \<Longrightarrow> unchanged t t' \<and> train_loss_dict t' = train_loss_dict t"
proof (induction xs arbitrary: t tot)
  case Nil
  then show ?case by (simp add: unchanged_refl)
next
  case (Cons x xs)
  obtain real_data fake_data where x: "x = (real_data, fake_data)" by (cases x)
  let ?call = "DTrainLoss real_data fake_data e"
  let ?ls = "gan_loss ops (gan_model t) ?call"
  let ?t1 = "gan_emit (CalculateLoss (?call, ?ls)) t"
  obtain t2 r2 where os: "optimize_step ops ?t1 ?call ?ls tot Discriminator = (t2, r2)"
    by (cases "optimize_step ops ?t1 ?call ?ls tot Discriminator")
  have k2: "unchanged t t2 \<and> train_loss_dict t2 = train_loss_dict t"
    by (rule kept_trans [OF unchanged_emit optimize_step_unchanged [OF os]]) simp
  show ?case
  proof (cases r2)
    case (Inl err)
    with Cons.prems os x have "t' = t2" by (simp add: Let_def)
    with k2 show ?thesis by simp
  next
    case (Inr tot')
    with Cons.prems os x have "d_batch_loop ops e t2 (Some tot') xs = (t', r)"
      by (simp add: Let_def)
    from kept_trans [OF k2 Cons.IH [OF this]] show ?thesis .
  qed
qed

lemma d_pass_loop_unchanged:
  "d_pass_loop ops e train_data sampled t tot ks = (t', r)
     \<Longrightarrow> unchanged t t' \<and> train_loss_dict t' = train_loss_dict t"
proof (induction ks arbitrary: t tot)
  case Nil
  then show ?case by (simp add: unchanged_refl)
next
  case (Cons k ks)
  let ?pairs = "zip (real_dataloader ops train_data k) (fake_dataloader ops sampled k)"
  obtain t1 r1 where bl: "d_batch_loop ops e t tot ?pairs = (t1, r1)"
    by (cases "d_batch_loop ops e t tot ?pairs")
  note k1 = d_batch_loop_unchanged [OF bl]
  show ?case
  proof (cases r1)
    case (Inl err)
    with Cons.prems bl have "t' = t1" by simp
    with k1 show ?thesis by simp
  next
    case (Inr tot')
    with Cons.prems bl have "d_pass_loop ops e train_data sampled t1 tot' ks = (t', r)"
      by simp
    from kept_trans [OF k1 Cons.IH [OF this]] show ?thesis .
  qed
qed

lemma d_train_epoch_unchanged:
  assumes "d_train_epoch ops t xs e = (t', r)"
  shows "unchanged t t' \<and> train_loss_dict t' = train_loss_dict t"
proof -
  let ?t0 = "gan_emit ModelTrain t"
  obtain t1 r1 where l: "d_pass_loop ops e xs (gan_model ?t0) ?t0 None
      [0..<nat (d_sample_training_epochs ?t0)] = (t1, r1)"
    by (cases "d_pass_loop ops e xs (gan_model ?t0) ?t0 None
      [0..<nat (d_sample_training_epochs ?t0)]")
  with assms have "t' = t1"
    by (auto simp: d_train_epoch_def Let_def split: sum.splits)
  with kept_trans [OF unchanged_emit d_pass_loop_unchanged [OF l]] show ?thesis
    by simp
qed

lemma adversarial_d_loop_unchanged:
  "adversarial_d_loop ops t train_data es = (t', r)
     \<Longrightarrow> unchanged t t' \<and> train_loss_dict t' = train_loss_dict t"
proof (induction es arbitrary: t)
  case Nil
  then show ?case by (simp add: unchanged_refl)
next
  case (Cons e es)
  obtain t1 r1 where de: "d_train_epoch ops t train_data e = (t1, r1)"
    by (cases "d_train_epoch ops t train_data e")
  note k1 = d_train_epoch_unchanged [OF de]
  show ?case
  proof (cases r1)
    case (Inl err)
    with Cons.prems de have "t' = t1" by simp
    with k1 show ?thesis by simp
  next
    case (Inr x)
    with Cons.prems de have "adversarial_d_loop ops t1 train_data es = (t', r)"
      by simp
    from kept_trans [OF k1 Cons.IH [OF this]] show ?thesis .
  qed
qed

lemma adversarial_train_epoch_unchanged:
  assumes "adversarial_train_epoch ops t train_data e = (t', r)"
  shows "unchanged t t' \<and> train_loss_dict t' = train_loss_dict t"
proof -
  let ?t0 = "gan_emit ModelTrain t"
  let ?call = "GAdversarialLoss e"
  let ?ls = "gan_loss ops (gan_model ?t0) ?call"
  let ?t1 = "gan_emit (CalculateLoss (?call, ?ls)) ?t0"
  obtain t2 r2 where os: "optimize_step ops ?t1 ?call ?ls None Generator = (t2, r2)"
    by (cases "optimize_step ops ?t1 ?call ?ls None Generator")
  have k1: "unchanged t ?t1 \<and> train_loss_dict ?t1 = train_loss_dict t"
    by (rule kept_trans [OF unchanged_emit unchanged_emit]) simp_all
  note k2 = kept_trans [OF k1 optimize_step_unchanged [OF os]]
  show ?thesis
  proof (cases r2)
    case (Inl err)
    with assms os have "t' = t2" by (simp add: adversarial_train_epoch_def Let_def)
    with k2 show ?thesis by simp
  next
    case (Inr tot')
    obtain t3 r3 where dl: "adversarial_d_loop ops t2 train_data [0..adversarail_d_epochs t2 - 1]
        = (t3, r3)"
      by (cases "adversarial_d_loop ops t2 train_data [0..adversarail_d_epochs t2 - 1]")
    with assms os Inr have "t' = t3"
      by (auto simp: adversarial_train_epoch_def Let_def split: sum.splits)
    with kept_trans [OF k2 adversarial_d_loop_unchanged [OF dl]] show ?thesis
      by simp
  qed
qed


lemma g_pretraining_loop_unchanged:
  "g_pretraining_loop ops t train_data verbose es = (t', r)
     \<Longrightarrow> unchanged t t' \<and> train_loss_dict t' = train_loss_dict t"
proof (induction es arbitrary: t)
  case Nil
  then show ?case by (simp add: unchanged_refl)
next
  case (Cons e es)
  obtain t1 r1 where ge: "g_train_epoch ops t train_data e = (t1, r1)"
    by (cases "g_train_epoch ops t train_data e")
  note k1 = g_train_epoch_unchanged [OF ge]
  show ?case
  proof (cases r1)
    case (Inl err)
    with Cons.prems ge have "t' = t1" by simp
    with k1 show ?thesis by simp
  next
    case (Inr train_loss)
    let ?t2 = "gan_log_info verbose (TrainLossOutput e)
        (t1\<lparr>g_pretraining_loss_dict := (g_pretraining_loss_dict t1)(e \<mapsto> loss_sum train_loss)\<rparr>)"
    have k2: "unchanged t1 ?t2 \<and> train_loss_dict ?t2 = train_loss_dict t1"
      by (simp add: unchanged_def gan_log_info_def gan_emit_def saves_append)
    from Cons.prems ge Inr have "g_pretraining_loop ops ?t2 train_data verbose es = (t', r)"
      by simp
    from kept_trans [OF kept_trans [OF k1 k2] Cons.IH [OF this]] show ?thesis .
  qed
qed

lemma d_pretraining_loop_unchanged:
  "d_pretraining_loop ops t train_data verbose es = (t', r)
     \<Longrightarrow> unchanged t t' \<and> train_loss_dict t' = train_loss_dict t"
proof (induction es arbitrary: t)
  case Nil
  then show ?case by (simp add: unchanged_refl)
next
  case (Cons e es)
  obtain t1 r1 where de: "d_train_epoch ops t train_data e = (t1, r1)"
    by (cases "d_train_epoch ops t train_data e")
  note k1 = d_train_epoch_unchanged [OF de]
  show ?case
  proof (cases r1)
    case (Inl err)
    with Cons.prems de have "t' = t1" by simp
    with k1 show ?thesis by simp
  next
    case (Inr train_loss)
    let ?t2 = "gan_log_info verbose (TrainLossOutput e)
        (t1\<lparr>d_pretraining_loss_dict := (d_pretraining_loss_dict t1)(e \<mapsto> train_loss)\<rparr>)"
    have k2: "unchanged t1 ?t2 \<and> train_loss_dict ?t2 = train_loss_dict t1"
      by (simp add: unchanged_def gan_log_info_def gan_emit_def saves_append)
    from Cons.prems de Inr have "d_pretraining_loop ops ?t2 train_data verbose es = (t', r)"
      by simp
    from kept_trans [OF kept_trans [OF k1 k2] Cons.IH [OF this]] show ?thesis .
  qed
qed

lemma adversarial_training_loop_unchanged:
  "adversarial_training_loop ops t train_data verbose es = (t', r) \<Longrightarrow> unchanged t t'"
proof (induction es arbitrary: t)
  case Nil
  then show ?case by (simp add: unchanged_refl)
next
  case (Cons e es)
  obtain t1 r1 where ae: "adversarial_train_epoch ops t train_data e = (t1, r1)"
    by (cases "adversarial_train_epoch ops t train_data e")
  from adversarial_train_epoch_unchanged [OF ae] have k1: "unchanged t t1"
    by simp
  show ?case
  proof (cases r1)
    case (Inl err)
    with Cons.prems ae have "t' = t1" by simp
    with k1 show ?thesis by simp
  next
    case (Inr train_loss)
    show ?thesis
    proof (cases "train_loss_dict t1")
      case None
      with Cons.prems ae Inr have "t' = t1" by simp
      with k1 show ?thesis by simp
    next
      case (Some d)
      let ?t2 = "gan_log_info verbose (TrainLossOutput e)
          (t1\<lparr>train_loss_dict := Some (d(e \<mapsto> loss_sum train_loss))\<rparr>)"
      have k2: "unchanged t1 ?t2"
        by (simp add: unchanged_def gan_log_info_def gan_emit_def saves_append)
      from Cons.prems ae Inr Some
      have "adversarial_training_loop ops ?t2 train_data verbose es = (t', r)"
        by simp
      from unchanged_trans [OF unchanged_trans [OF k1 k2] Cons.IH [OF this]] show ?thesis .
    qed
  qed
qed

section \<open>The fit of the adversarial trainers\<close>

lemmas gan_example_defs = example_gan_ops_def example_gan_trainer_def gan_trainer_init_def
  example_config_def build_optimizer_def build_module_optimizer_def torch_optim_def
  lower_examples path_join_def

lemmas gan_defs = gan_fit_def adversarial_train_epoch_def d_train_epoch_def g_train_epoch_def
  optimize_step_def optimize_multi_step_def apply_step_def gan_emit_def gan_log_info_def
  gan_save_checkpoint_def upto.simps Let_def

text \<open>
  Claim C4 fails on the code. In the scenario of the specification (no pretraining
  epochs, one adversarial epoch with one discriminator epoch) \<^verbatim>\<open>GANTrainer.fit\<close> of a trainer
  that its constructor has built makes the generator step and the discriminator pass,
  then raises \<^verbatim>\<open>AttributeError\<close> at \<^verbatim>\<open>self.train_loss_dict[epoch_idx] = ...\<close>: it returns
  nothing and writes no checkpoint.
\<close>

theorem adversarial_fit_scenario_raises:
  "snd (gan_fit example_gan_ops example_gan_trainer [0::nat] None False True) = Inl AttributeError
   \<and> gan_trace (fst (gan_fit example_gan_ops example_gan_trainer [0::nat] None False True))
       = [ModelTrain, CalculateLoss (GAdversarialLoss 0, Scalar (Fin 1)), OptimizerStep,
          ModelTrain, CalculateLoss (DTrainLoss 0 1 0, Scalar (Fin 1)), OptimizerStep]
   \<and> saves (gan_trace (fst (gan_fit example_gan_ops example_gan_trainer [0::nat] None False True)))
       = []"
  by (simp add: gan_example_defs gan_defs)

text \<open>
  The same for every adversarial trainer without the attribute \<^verbatim>\<open>train_loss_dict\<close> (as the
  constructor leaves it) and at least one adversarial epoch: \<open>fit\<close> ends in an error
  and writes no checkpoint.
\<close>

lemma adversarial_training_loop_without_dict:
  assumes "train_loss_dict t = None"
  shows "\<exists>err. snd (adversarial_training_loop ops t train_data verbose (e # es)) = Inl err"
proof -
  obtain t1 r1 where ae: "adversarial_train_epoch ops t train_data e = (t1, r1)"
    by (cases "adversarial_train_epoch ops t train_data e")
  from adversarial_train_epoch_unchanged [OF ae] assms have "train_loss_dict t1 = None"
    by simp
  with ae show ?thesis
    by (cases r1) simp_all
qed

lemma fresh_adversarial_fit_raises:
  assumes "train_loss_dict t = None" and "1 \<le> adversarail_training_epochs t"
  shows "\<exists>err. snd (gan_fit ops t train_data valid_data verbose saved) = Inl err"
    and "saves (gan_trace (fst (gan_fit ops t train_data valid_data verbose saved)))
           = saves (gan_trace t)"
proof -
  let ?t1 = "gan_log_info verbose StartGeneratorPretraining t"
  obtain t2 r2 where gl: "g_pretraining_loop ops ?t1 train_data verbose
      [0..g_pretraining_epochs ?t1 - 1] = (t2, r2)"
    by (cases "g_pretraining_loop ops ?t1 train_data verbose [0..g_pretraining_epochs ?t1 - 1]")
  note k2 = kept_trans [OF unchanged_log g_pretraining_loop_unchanged [OF gl]]
  let ?t3 = "gan_log_info verbose StartDiscriminatorPretraining
                  (gan_log_info verbose EndGeneratorPretraining t2)"
  obtain t4 r4 where dl: "d_pretraining_loop ops ?t3 train_data verbose
      [0..d_pretraining_epochs ?t3 - 1] = (t4, r4)"
    by (cases "d_pretraining_loop ops ?t3 train_data verbose [0..d_pretraining_epochs ?t3 - 1]")
  note k4 = kept_trans [OF kept_trans [OF kept_trans [OF k2 unchanged_log] unchanged_log]
      d_pretraining_loop_unchanged [OF dl]]
  let ?t5 = "gan_log_info verbose StartAdversarialTraining
                  (gan_log_info verbose EndDiscriminatorPretraining t4)"
  have k5: "unchanged t ?t5 \<and> train_loss_dict ?t5 = train_loss_dict t"
    by (rule kept_trans [OF kept_trans [OF k4 unchanged_log] unchanged_log])
  obtain t6 r6 where al: "adversarial_training_loop ops ?t5 train_data verbose
      [0..adversarail_training_epochs ?t5 - 1] = (t6, r6)"
    by (cases "adversarial_training_loop ops ?t5 train_data verbose
      [0..adversarail_training_epochs ?t5 - 1]")
  from k5 assms have d5: "train_loss_dict ?t5 = None"
    and n5: "1 \<le> adversarail_training_epochs ?t5"
    by (simp_all add: unchanged_def)
  from n5 have "[0..adversarail_training_epochs ?t5 - 1]
      = 0 # [1..adversarail_training_epochs ?t5 - 1]"
    by (simp add: upto_rec1)
  with adversarial_training_loop_without_dict [OF d5, of ops train_data verbose 0
      "[1..adversarail_training_epochs ?t5 - 1]"] al
  obtain err where r6: "r6 = Inl err"
    by auto
  from adversarial_training_loop_unchanged [OF al] k5 have k6: "unchanged t t6"
    by (auto intro: unchanged_trans)
  have res: "gan_fit ops t train_data valid_data verbose saved
      = (case r2 of Inl e \<Rightarrow> (t2, Inl e)
         | Inr _ \<Rightarrow> (case r4 of Inl e \<Rightarrow> (t4, Inl e) | Inr _ \<Rightarrow> (t6, Inl err)))"
    using gl dl al r6 by (simp add: gan_fit_def Let_def split: sum.splits)
  show "\<exists>err. snd (gan_fit ops t train_data valid_data verbose saved) = Inl err"
    unfolding res by (cases r2; cases r4) simp_all
  from k2 k4 k6 show "saves (gan_trace (fst (gan_fit ops t train_data valid_data verbose saved)))
           = saves (gan_trace t)"
    unfolding res by (cases r2; cases r4) (simp_all add: unchanged_def)
qed

text \<open>
  Whenever \<open>fit\<close> of an adversarial trainer does return, it has written exactly one
  checkpoint, as its last effect on the files, and its result is \<open>(-1, None)\<close>.
\<close>

lemma adversarial_fit_result:
  assumes "gan_fit ops t train_data valid_data verbose saved = (t', Inr r)"
  shows "r = (- 1, None)
    \<and> saves (gan_trace t')
        = saves (gan_trace t)
          @ [(gan_saved_model_file t,
              \<lparr>ck_config = gan_config t, ck_epoch = adversarail_training_epochs t,
               ck_cur_step = gan_cur_step t, ck_best_valid_score = gan_best_valid_score t,
               ck_state_dict = gan_model t', ck_optimizer = None\<rparr>)]"
proof -
  let ?t1 = "gan_log_info verbose StartGeneratorPretraining t"
  obtain t2 r2 where gl: "g_pretraining_loop ops ?t1 train_data verbose
      [0..g_pretraining_epochs ?t1 - 1] = (t2, r2)"
    by (cases "g_pretraining_loop ops ?t1 train_data verbose [0..g_pretraining_epochs ?t1 - 1]")
  note k2 = kept_trans [OF unchanged_log g_pretraining_loop_unchanged [OF gl]]
  let ?t3 = "gan_log_info verbose StartDiscriminatorPretraining
                  (gan_log_info verbose EndGeneratorPretraining t2)"
  obtain t4 r4 where dl: "d_pretraining_loop ops ?t3 train_data verbose
      [0..d_pretraining_epochs ?t3 - 1] = (t4, r4)"
    by (cases "d_pretraining_loop ops ?t3 train_data verbose [0..d_pretraining_epochs ?t3 - 1]")
  note k4 = kept_trans [OF kept_trans [OF kept_trans [OF k2 unchanged_log] unchanged_log]
      d_pretraining_loop_unchanged [OF dl]]
  let ?t5 = "gan_log_info verbose StartAdversarialTraining
                  (gan_log_info verbose EndDiscriminatorPretraining t4)"
  have k5: "unchanged t ?t5 \<and> train_loss_dict ?t5 = train_loss_dict t"
    by (rule kept_trans [OF kept_trans [OF k4 unchanged_log] unchanged_log])
  obtain t6 r6 where al: "adversarial_training_loop ops ?t5 train_data verbose
      [0..adversarail_training_epochs ?t5 - 1] = (t6, r6)"
    by (cases "adversarial_training_loop ops ?t5 train_data verbose
      [0..adversarail_training_epochs ?t5 - 1]")
  from adversarial_training_loop_unchanged [OF al] k5 have k6: "unchanged t t6"
    by (auto intro: unchanged_trans)
  from assms gl dl al have r: "r = (- 1, None)"
    and t': "t' = gan_save_checkpoint (gan_log_info verbose EndAdversarialPretraining t6)
                 (adversarail_training_epochs t6)"
    by (auto simp: gan_fit_def Let_def split: sum.splits)
  from k6 have "saves (gan_trace t')
        = saves (gan_trace t)
          @ [(gan_saved_model_file t,
              \<lparr>ck_config = gan_config t, ck_epoch = adversarail_training_epochs t,
               ck_cur_step = gan_cur_step t, ck_best_valid_score = gan_best_valid_score t,
               ck_state_dict = gan_model t', ck_optimizer = None\<rparr>)]"
    unfolding t'
    by (simp add: unchanged_def gan_save_checkpoint_def gan_log_info_def gan_emit_def saves_append)
  with r show ?thesis by simp
qed

section \<open>The interleaved adversarial epoch\<close>

lemma fadd_zero: "fadd (Fin 0) x = x"
  by (cases x) auto

lemma fsum_Cons: "fsum (x # xs) = foldl fadd x xs"
  by (simp add: fsum_def fadd_zero)

lemma fsum_snoc: "xs \<noteq> [] \<Longrightarrow> fsum (xs @ [x]) = fadd (fsum xs) x"
  by (simp add: fsum_def)

lemma d_draws_append: "d_draws (xs @ ys) = d_draws xs @ d_draws ys"
  by (induction xs rule: d_draws.induct) auto

lemma g_draws_append: "g_draws (xs @ ys) = g_draws xs @ g_draws ys"
  by (induction xs rule: g_draws.induct) auto

lemma next_or_restart_cyclic:
  assumes "train_data \<noteq> []"
  shows "next_or_restart train_data (drop (Suc (m mod length train_data)) train_data)
           = Inr (train_data ! (Suc m mod length train_data),
                  drop (Suc (Suc m mod length train_data)) train_data)"
proof (cases "Suc (m mod length train_data) = length train_data")
  case True
  obtain x xs where td: "train_data = x # xs"
    using assms by (cases train_data) auto
  from True have "drop (Suc (m mod length train_data)) train_data = []"
    by simp
  with True td show ?thesis
    by (simp add: next_or_restart_def mod_Suc)
next
  case False
  moreover from assms have "m mod length train_data < length train_data"
    by simp
  ultimately have lt: "Suc (m mod length train_data) < length train_data"
    by linarith
  then have "drop (Suc (m mod length train_data)) train_data
      = train_data ! Suc (m mod length train_data)
        # drop (Suc (Suc (m mod length train_data))) train_data"
    by (simp add: Cons_nth_drop_Suc)
  with False show ?thesis
    by (simp add: next_or_restart_def mod_Suc)
qed

lemma running_step:
  "accumulate (running xs) (Scalar x) = Inr (Scalar (fsum (xs @ [x])))"
  by (simp add: running_def fsum_def fadd_zero)

lemma running_snoc: "Some (Scalar (fsum (xs @ [x]))) = running (xs @ [x])"
  by (simp add: running_def)

lemma mask_optimize_step_scalar:
  assumes "\<not> isnan x"
  shows "mask_optimize_step ops t (Scalar x) (running xs) m retain_graph
           = (apply_step (mask_step ops m retain_graph) m t, Inr (Scalar (fsum (xs @ [x]))))"
  using assms by (simp add: mask_optimize_step_def running_step)

lemma mask_d_loop_run:
  assumes td: "train_data \<noteq> []"
    and d: "\<forall>p b i. \<exists>x. calculate_d_train_loss ops p b i = Scalar x \<and> \<not> isnan x"
  shows "\<exists>t' evs ds.
     mask_d_loop ops train_data t (drop (Suc (m mod length train_data)) train_data)
         (running ds0) d_num idxs
       = (t', Inr (drop (Suc ((m + length idxs) mod length train_data)) train_data,
                   running (ds0 @ ds), d_num + length idxs))
     \<and> stepped t t' evs
     \<and> d_draws evs
         = zip (map (\<lambda>j. train_data ! (Suc (m + j) mod length train_data)) [0..<length idxs])
               (map Scalar ds)
     \<and> length ds = length idxs
     \<and> g_draws evs = []"
proof (induction idxs arbitrary: t m ds0 d_num)
  case Nil
  show ?case
    by (intro exI [of _ t] exI [of _ "[]"]) (simp add: stepped_refl)
next
  case (Cons i idxs)
  let ?n = "length train_data"
  let ?d_x = "train_data ! (Suc m mod ?n)"
  from d obtain x where x: "calculate_d_train_loss ops (gan_model t) ?d_x i = Scalar x" "\<not> isnan x"
    by blast
  let ?ev = "CalculateLoss (MaskDLoss ?d_x i (Scalar x))"
  let ?t1 = "gan_emit ?ev t"
  let ?t2 = "apply_step (mask_step ops Discriminator False) Discriminator ?t1"
  from Cons.IH [of ?t2 "Suc m" "ds0 @ [x]" "d_num + 1"] obtain t' evs ds where
    run: "mask_d_loop ops train_data ?t2 (drop (Suc (Suc m mod ?n)) train_data)
         (running (ds0 @ [x])) (d_num + 1) idxs
       = (t', Inr (drop (Suc ((Suc m + length idxs) mod ?n)) train_data,
                   running ((ds0 @ [x]) @ ds), d_num + 1 + length idxs))"
    and st: "stepped ?t2 t' evs"
    and dd: "d_draws evs
         = zip (map (\<lambda>j. train_data ! (Suc (Suc m + j) mod ?n)) [0..<length idxs])
               (map Scalar ds)"
    and len: "length ds = length idxs"
    and gd: "g_draws evs = []"
    by blast
  have gm: "gan_model ?t1 = gan_model t"
    by (simp add: gan_emit_def)
  have step: "mask_d_loop ops train_data t (drop (Suc (m mod ?n)) train_data)
         (running ds0) d_num (i # idxs)
       = (t', Inr (drop (Suc ((m + length (i # idxs)) mod ?n)) train_data,
                   running (ds0 @ x # ds), d_num + length (i # idxs)))"
    using run x
    by (simp add: next_or_restart_cyclic [OF td] mask_optimize_step_scalar running_snoc)
  have st': "stepped t t' (?ev # OptimizerStep # evs)"
    using stepped_trans [OF stepped_trans [OF stepped_emit stepped_apply_step] st]
    by simp
  have "[0..<length (i # idxs)] = 0 # map Suc [0..<length idxs]"
    by (simp add: upt_conv_Cons map_Suc_upt del: upt_Suc)
  then have dd': "d_draws (?ev # OptimizerStep # evs)
         = zip (map (\<lambda>j. train_data ! (Suc (m + j) mod ?n)) [0..<length (i # idxs)])
               (map Scalar (x # ds))"
    using dd by (simp add: comp_def)
  from step st' dd' len gd show ?case
    by (intro exI [of _ t'] exI [of _ "?ev # OptimizerStep # evs"] exI [of _ "x # ds"]) simp
qed


lemma zip_map_upt_append:
  assumes "length xs = a"
  shows "zip (map f [0..<a + b]) (xs @ ys)
           = zip (map f [0..<a]) xs @ zip (map (\<lambda>j. f (a + j)) [0..<b]) ys"
proof -
  have "[0..<a + b] = [0..<a] @ [a..<a + b]"
    by (rule upt_add_eq_append) simp
  moreover have "map (\<lambda>j. a + j) [0..<b] = [a..<a + b]"
    using map_add_upt [of a b] by (simp add: add.commute)
  ultimately have "[0..<a + b] = [0..<a] @ map (\<lambda>j. a + j) [0..<b]"
    by simp
  then have "map f [0..<a + b] = map f [0..<a] @ map (\<lambda>j. f (a + j)) [0..<b]"
    by (simp add: comp_def)
  with assms show ?thesis
    by simp
qed

lemma mask_g_loop_run:
  assumes td: "train_data \<noteq> []"
    and d: "\<forall>p b i. \<exists>x. calculate_d_train_loss ops p b i = Scalar x \<and> \<not> isnan x"
    and g: "\<forall>p b j. \<exists>x y. calculate_g_adversarial_loss ops p b j = (Scalar x, Scalar y)
               \<and> \<not> isnan x \<and> \<not> isnan y"
  shows "nat (adversarail_d_epochs t) = k \<Longrightarrow>
    \<exists>t' evs ds gs cs.
     mask_g_loop ops train_data t (drop (Suc (m mod length train_data)) train_data)
         (running ds0) (running gs0) (running cs0) g_num d_num rest
       = (t', Inr ((running (ds0 @ ds), d_num + k * length rest),
                   (running (gs0 @ gs), g_num + length rest), running (cs0 @ cs)))
     \<and> stepped t t' evs
     \<and> d_draws evs
         = zip (map (\<lambda>j. train_data ! (Suc (m + j) mod length train_data)) [0..<k * length rest])
               (map Scalar ds)
     \<and> length ds = k * length rest
     \<and> g_draws evs = zip rest (zip (map Scalar gs) (map Scalar cs))
     \<and> length gs = length rest \<and> length cs = length rest"
proof (induction rest arbitrary: t m ds0 gs0 cs0 g_num d_num)
  case Nil
  show ?case
    by (intro exI [of _ t] exI [of _ "[]"]) (simp add: stepped_refl)
next
  case (Cons g_x rest)
  let ?n = "length train_data"
  let ?idxs = "[0..adversarail_d_epochs t - 1]"
  have lk: "length ?idxs = k"
    using Cons.prems by simp
  from mask_d_loop_run [OF td d, of t m ds0 d_num ?idxs, unfolded lk] obtain t1 evs1 ds1 where
    inner: "mask_d_loop ops train_data t (drop (Suc (m mod ?n)) train_data)
         (running ds0) d_num ?idxs
       = (t1, Inr (drop (Suc ((m + k) mod ?n)) train_data, running (ds0 @ ds1), d_num + k))"
    and st1: "stepped t t1 evs1"
    and dd1: "d_draws evs1
         = zip (map (\<lambda>j. train_data ! (Suc (m + j) mod ?n)) [0..<k]) (map Scalar ds1)"
    and len1: "length ds1 = k"
    and gd1: "g_draws evs1 = []"
    by blast
  from g obtain x y where
    xy: "calculate_g_adversarial_loss ops (gan_model t1) g_x (g_num + 1) = (Scalar x, Scalar y)"
      "\<not> isnan x" "\<not> isnan y"
    by blast
  let ?ev = "CalculateLoss (MaskGLoss g_x (g_num + 1) (Scalar x) (Scalar y))"
  let ?t2 = "gan_emit ?ev t1"
  let ?t3 = "apply_step (mask_step ops Generator True) Generator ?t2"
  let ?t4 = "apply_step (mask_step ops Discriminator False) Discriminator ?t3"
  have st4: "stepped t ?t4 (evs1 @ [?ev, OptimizerStep, OptimizerStep])"
    using stepped_trans [OF st1
        stepped_trans [OF stepped_emit stepped_trans [OF stepped_apply_step stepped_apply_step]]]
    by simp
  from stepped_fields(1) [OF st4] Cons.prems have k4: "nat (adversarail_d_epochs ?t4) = k"
    by simp
  from Cons.IH [OF k4, of "m + k" "ds0 @ ds1" "gs0 @ [x]" "cs0 @ [y]" "g_num + 1" "d_num + k"]
  obtain t' evs2 ds2 gs cs where
    run: "mask_g_loop ops train_data ?t4 (drop (Suc ((m + k) mod ?n)) train_data)
         (running (ds0 @ ds1)) (running (gs0 @ [x])) (running (cs0 @ [y])) (g_num + 1) (d_num + k) rest
       = (t', Inr ((running ((ds0 @ ds1) @ ds2), d_num + k + k * length rest),
                   (running ((gs0 @ [x]) @ gs), g_num + 1 + length rest),
                   running ((cs0 @ [y]) @ cs)))"
    and st: "stepped ?t4 t' evs2"
    and dd2: "d_draws evs2
         = zip (map (\<lambda>j. train_data ! (Suc (m + k + j) mod ?n)) [0..<k * length rest])
               (map Scalar ds2)"
    and len2: "length ds2 = k * length rest"
    and gd2: "g_draws evs2 = zip rest (zip (map Scalar gs) (map Scalar cs))"
    and leng: "length gs = length rest" "length cs = length rest"
    by blast
  have t1d: "adversarail_d_epochs t1 = adversarail_d_epochs t"
    by (rule stepped_fields(1) [OF st1])
  have step: "mask_g_loop ops train_data t (drop (Suc (m mod ?n)) train_data)
         (running ds0) (running gs0) (running cs0) g_num d_num (g_x # rest)
       = (t', Inr ((running (ds0 @ ds1 @ ds2), d_num + k * length (g_x # rest)),
                   (running (gs0 @ x # gs), g_num + length (g_x # rest)),
                   running (cs0 @ y # cs)))"
    using run xy inner
    by (simp add: mask_optimize_step_scalar running_snoc add.assoc)
  have st': "stepped t t' (evs1 @ [?ev, OptimizerStep, OptimizerStep] @ evs2)"
    using stepped_trans [OF st4 st] by simp
  have dd: "d_draws (evs1 @ [?ev, OptimizerStep, OptimizerStep] @ evs2)
         = zip (map (\<lambda>j. train_data ! (Suc (m + j) mod ?n)) [0..<k * length (g_x # rest)])
               (map Scalar (ds1 @ ds2))"
    using zip_map_upt_append [of "map Scalar ds1" k
        "\<lambda>j. train_data ! (Suc (m + j) mod ?n)" "k * length rest" "map Scalar ds2"] len1
    by (simp add: d_draws_append dd1 dd2 add.assoc)
  have gd: "g_draws (evs1 @ [?ev, OptimizerStep, OptimizerStep] @ evs2)
         = zip (g_x # rest) (zip (map Scalar (x # gs)) (map Scalar (y # cs)))"
    by (simp add: g_draws_append gd1 gd2)
  from step st' dd gd len1 len2 leng show ?case
    by (intro exI [of _ t'] exI [of _ "evs1 @ [?ev, OptimizerStep, OptimizerStep] @ evs2"]
        exI [of _ "ds1 @ ds2"] exI [of _ "x # gs"] exI [of _ "y # cs"]) simp
qed

text \<open>
  Claim C8. Let the training data have \<open>n > 0\<close> batches, let \<^verbatim>\<open>adversarail_d_epochs\<close> be
  \<open>k > 0\<close>, and let every loss be a scalar that is not NaN. Then the adversarial epoch
  of the interleaved variant returns (in particular it does not raise \<^verbatim>\<open>StopIteration\<close>);
  its discriminator micro-steps are \<open>k * n\<close>, and the \<open>j\<close>-th of them draws the batch at
  position \<open>(j + 1) mod n\<close>: after the last batch the iterator starts again at the first;
  its generator steps are \<open>n\<close>, one per batch, each with one critic step; and the result
  is the mean of the discriminator's losses over \<open>k * n\<close>, the mean of the generator's
  losses over \<open>n\<close> and the mean of the critic's losses over \<open>n\<close>.
\<close>

theorem interleaved_epoch_restarts_and_averages:
  assumes td: "train_data \<noteq> []"
    and k: "0 < adversarail_d_epochs t"
    and d: "\<forall>p b i. \<exists>x. calculate_d_train_loss ops p b i = Scalar x \<and> \<not> isnan x"
    and g: "\<forall>p b j. \<exists>x y. calculate_g_adversarial_loss ops p b j = (Scalar x, Scalar y)
               \<and> \<not> isnan x \<and> \<not> isnan y"
  shows "\<exists>t' evs ds gs cs.
      mask_adversarial_train_epoch ops t train_data epoch_idx
        = (t', Inr (fmean ds, fmean gs, fmean cs))
    \<and> gan_trace t' = gan_trace t @ evs
    \<and> d_draws evs
        = zip (map (\<lambda>j. train_data ! (Suc j mod length train_data))
                 [0..<nat (adversarail_d_epochs t) * length train_data])
              (map Scalar ds)
    \<and> length ds = nat (adversarail_d_epochs t) * length train_data
    \<and> g_draws evs = zip train_data (zip (map Scalar gs) (map Scalar cs))
    \<and> length gs = length train_data
    \<and> length cs = length train_data"
proof -
  let ?k = "nat (adversarail_d_epochs t)"
  let ?n = "length train_data"
  obtain b bs where tdc: "train_data = b # bs"
    using td by (cases train_data) auto
  have nb: "next_batch train_data = Inr (b, drop (Suc 0) train_data)"
    by (simp add: tdc)
  have rn: "running [] = None"
    by (simp add: running_def)
  from mask_g_loop_run [OF td d g refl, of t 0 "[]" "[]" "[]" 0 0 train_data]
  obtain t' evs ds gs cs where
    run: "mask_g_loop ops train_data t (drop (Suc 0) train_data)
         None None None 0 0 train_data
       = (t', Inr ((running ds, ?k * ?n), (running gs, ?n), running cs))"
    and st: "stepped t t' evs"
    and dd: "d_draws evs
         = zip (map (\<lambda>j. train_data ! (Suc j mod ?n)) [0..<?k * ?n]) (map Scalar ds)"
    and len: "length ds = ?k * ?n"
    and gd: "g_draws evs = zip train_data (zip (map Scalar gs) (map Scalar cs))"
    and leng: "length gs = ?n" "length cs = ?n"
    unfolding rn by (elim exE conjE) simp
  from k td have pos: "0 < ?k * ?n" "0 < ?n"
    by simp_all
  with len leng have ne: "ds \<noteq> []" "gs \<noteq> []" "cs \<noteq> []"
    by auto
  have tot: "running ds = Some (Scalar (fsum ds))" "running gs = Some (Scalar (fsum gs))"
    "running cs = Some (Scalar (fsum cs))"
    using ne by (simp_all add: running_def)
  have "mask_adversarial_train_epoch ops t train_data epoch_idx
        = (t', Inr (fmean ds, fmean gs, fmean cs))"
    unfolding mask_adversarial_train_epoch_def nb
    using pos len leng by (simp add: run tot fmean_def)
  with stepped_fields(2) [OF st] dd len gd leng show ?thesis
    by (intro exI [of _ t'] exI [of _ evs] exI [of _ ds] exI [of _ gs] exI [of _ cs]) simp
qed

theorem interleaved_epoch_restarts_and_averages_witness:
  "snd (mask_adversarial_train_epoch example_mask_ops example_mask_trainer [10, 20, 30] 0)
     = Inr (Fin 20, Fin 20, Fin 1)
   \<and> map fst (d_draws (gan_trace
         (fst (mask_adversarial_train_epoch example_mask_ops example_mask_trainer [10, 20, 30] 0))))
     = [20, 30, 10, 20, 30, 10]
   \<and> map fst (g_draws (gan_trace
         (fst (mask_adversarial_train_epoch example_mask_ops example_mask_trainer [10, 20, 30] 0))))
     = [10, 20, 30]"
  using interleaved_epoch_restarts_and_averages
    [of "[10, 20, 30]" example_mask_trainer example_mask_ops 0]
  by (simp add: example_mask_ops_def example_mask_trainer_def gan_trainer_init_def
      example_config_def build_optimizer_def build_module_optimizer_def torch_optim_def
      lower_examples path_join_def
      mask_adversarial_train_epoch_def mask_optimize_step_def apply_step_def gan_emit_def
      next_or_restart_def upto.simps Let_def)

text \<open>
  With no batch at all the epoch raises \<^verbatim>\<open>StopIteration\<close> before its loop, at the
  \<^verbatim>\<open>next\<close> that is outside the \<^verbatim>\<open>try\<close>.
\<close>

lemma interleaved_epoch_empty_data:
  "mask_adversarial_train_epoch ops t [] epoch_idx = (t, Inl StopIteration)"
  by (simp add: mask_adversarial_train_epoch_def)

section \<open>Divergence of the loss\<close>

















lemma gan_log_info_fields [simp]:
  "g_pretraining_epochs (gan_log_info v msg t) = g_pretraining_epochs t"
  "d_pretraining_epochs (gan_log_info v msg t) = d_pretraining_epochs t"
  "adversarail_training_epochs (gan_log_info v msg t) = adversarail_training_epochs t"
  by (simp_all add: gan_log_info_def gan_emit_def)
















end
